theory Spec2Isabelle
  imports Complex_Main "HOL-Library.Word"
begin

section \<open>Landmark-driven placement and alpha compositing (backend/virtual\_fitting.py)\<close>

text \<open>
  The development embeds the class \<open>VirtualFitter\<close> of \<open>backend/virtual_fitting.py\<close>.
  Conventions of the embedding:
  \<^item> a numpy array of \<open>uint8\<close> with three axes is a record of its shape and of a function
    from indices to bytes; an access the source makes outside the shape is an error value
    of the model, never a read of that function;
  \<^item> Python integers are \<open>int\<close> and \<open>nat\<close>. The floats of the placement rules are
    modelled by the reals; the blend of line 678 is computed in \<open>float64\<close>, each operation
    rounded to the nearest double. \<open>int(f)\<close> on a float truncates towards zero and
    \<open>f // 2\<close> is the floor of \<open>f / 2\<close>;
  \<^item> every exception the source can raise on well-typed input is a value \<open>Inl e\<close>;
  \<^item> the functions of OpenCV the source calls (\<open>cv2.resize\<close>, \<open>cv2.warpAffine\<close>,
    \<open>cv2.rectangle\<close>, \<open>cv2.imread\<close>) and the file system are parameters of the model.
\<close>

subsection \<open>Errors and arrays\<close>

datatype py_error =
    ValueError string
  | AttributeError
  | TypeError
  | KeyError
  | IndexError
  | CvError

record ndarray =
  sh0 :: nat
  sh1 :: nat
  sh2 :: nat
  elem :: "nat \<Rightarrow> nat \<Rightarrow> nat \<Rightarrow> 8 word"

text \<open>\<open>int(f)\<close> for a float \<open>f\<close>: truncation towards zero.\<close>

definition py_int :: "real \<Rightarrow> int" where
  "py_int r = (if 0 \<le> r then \<lfloor>r\<rfloor> else \<lceil>r\<rceil>)"

text \<open>\<open>f // 2\<close> for a float \<open>f\<close>: the floor of the quotient, as a float.\<close>

definition floordiv2 :: "real \<Rightarrow> real" where
  "floordiv2 r = of_int \<lfloor>r / 2\<rfloor>"

text \<open>
  One bound of a numpy slice \<open>a[start:stop]\<close> on an axis of length \<open>n\<close>: a negative bound
  counts from the end, and the bound is clipped to the axis.
\<close>

definition slice_idx :: "nat \<Rightarrow> int \<Rightarrow> nat" where
  "slice_idx n k = nat (if k < 0 then max 0 (k + int n) else min k (int n))"

text \<open>
  The library calls of the source, as parameters: \<open>cv2.resize(img, dsize)\<close>;
  \<open>cv2.getRotationMatrix2D(center, angle, 1.0)\<close> followed by
  \<open>cv2.warpAffine(img, matrix, dsize)\<close>; \<open>cv2.rectangle(img, pt1, pt2, color, thickness)\<close>;
  \<open>cv2.imread(path, IMREAD_UNCHANGED)\<close>, which yields \<open>None\<close> for a file it cannot decode;
  \<open>os.path.exists(path)\<close>.
\<close>

record cv_lib =
  cv_resize :: "ndarray \<Rightarrow> int \<times> int \<Rightarrow> py_error + ndarray"
  cv_warp :: "ndarray \<Rightarrow> nat \<times> nat \<Rightarrow> real \<Rightarrow> nat \<times> nat \<Rightarrow> py_error + ndarray"
  cv_rectangle :: "ndarray \<Rightarrow> int \<times> int \<Rightarrow> int \<times> int \<Rightarrow> 8 word list \<Rightarrow> int \<Rightarrow> ndarray"
  cv_imread :: "string \<Rightarrow> ndarray option"
  os_path_exists :: "string \<Rightarrow> bool"

text \<open>
  Arrays are objects: the program state holds the arrays by address, the next free
  address, and the two attributes of a \<open>VirtualFitter\<close> that matter here, its
  \<open>accessory_cache\<close> and the number of calls of \<open>cv2.imread\<close> made so far.
\<close>

record world =
  objs :: "nat \<Rightarrow> ndarray"
  nxt :: nat
  accessory_cache :: "string \<rightharpoonup> nat"
  decodes :: nat

definition alloc :: "world \<Rightarrow> ndarray \<Rightarrow> world \<times> nat" where
  "alloc w a = (w\<lparr>objs := (objs w)(nxt w := a), nxt := Suc (nxt w)\<rparr>, nxt w)"

subsection \<open>The compositor: \<open>_place_accessory\<close>\<close>

text \<open>
  Lines 630--651: the accessory is resized to \<open>(int(width), int(height))\<close> and, when the
  rotation is not zero, rotated about \<open>(shape[1] // 2, shape[0] // 2)\<close> on a canvas of the
  same size.
\<close>

definition resized_accessory ::
  "cv_lib \<Rightarrow> ndarray \<Rightarrow> real \<Rightarrow> real \<Rightarrow> real \<Rightarrow> py_error + ndarray" where
  "resized_accessory lib accessory_image width height rotation =
     (case cv_resize lib accessory_image (py_int width, py_int height) of
        Inl e \<Rightarrow> Inl e
      | Inr r \<Rightarrow>
          if rotation \<noteq> 0
          then cv_warp lib r (sh1 r div 2, sh0 r div 2) rotation (sh1 r, sh0 r)
          else Inr r)"

text \<open>Lines 654--664: the top-left corner, clamped when the accessory would leave the base.\<close>

definition raw_offsets :: "real \<Rightarrow> real \<Rightarrow> real \<Rightarrow> real \<Rightarrow> int \<times> int" where
  "raw_offsets x y width height =
     (py_int (x - floordiv2 width), py_int (y - floordiv2 height))"

definition out_of_bounds :: "ndarray \<Rightarrow> ndarray \<Rightarrow> int \<times> int \<Rightarrow> bool" where
  "out_of_bounds result ra off =
     (fst off < 0 \<or> snd off < 0 \<or>
      fst off + int (sh1 ra) > int (sh1 result) \<or>
      snd off + int (sh0 ra) > int (sh0 result))"

definition place_offsets :: "ndarray \<Rightarrow> ndarray \<Rightarrow> int \<times> int \<Rightarrow> int \<times> int" where
  "place_offsets result ra off =
     (if out_of_bounds result ra off
      then (max 0 (min (int (sh1 result) - int (sh1 ra)) (fst off)),
            max 0 (min (int (sh0 result) - int (sh0 ra)) (snd off)))
      else off)"

text \<open>Lines 667--668: the size of the region of interest.\<close>

definition roi_size :: "ndarray \<Rightarrow> ndarray \<Rightarrow> int \<times> int \<Rightarrow> int \<times> int" where
  "roi_size result ra off =
     (min (int (sh1 ra)) (int (sh1 result) - fst off),
      min (int (sh0 ra)) (int (sh0 result) - snd off))"

text \<open>
  Rounding to the nearest double, ties to even: a double has a significand of 53 bits.
  The exponent range is not modelled; the values of line 678 are 0 or lie between
  \<open>2 ^ - 9\<close> and 256, far from overflow and underflow.
\<close>

definition round_even :: "real \<Rightarrow> int" where
  "round_even r =
     (let f = \<lfloor>r\<rfloor>; d = r - of_int f
      in if d < 1 / 2 then f else if 1 / 2 < d then f + 1 else if even f then f else f + 1)"

definition float64 :: "real \<Rightarrow> real" where
  "float64 x =
     (if x = 0 then 0
      else (let e = \<lfloor>log 2 \<bar>x\<bar>\<rfloor> - 52
            in of_int (round_even (x / 2 powr of_int e)) * 2 powr of_int e))"

text \<open>
  Line 678, one element: \<open>(1.0 - a) * base + a * accessory\<close> with \<open>a = alpha / 255.0\<close> of
  line 674, every operation in \<open>float64\<close> on operands converted from \<open>uint8\<close>; the store
  into the \<open>uint8\<close> array drops the fractional part.
\<close>

definition blend_channel :: "8 word \<Rightarrow> 8 word \<Rightarrow> 8 word \<Rightarrow> 8 word" where
  "blend_channel alpha b v =
     (let a = float64 (real (unat alpha) / 255);
          kept = float64 (float64 (1 - a) * real (unat b));
          added = float64 (a * real (unat v))
      in word_of_int (py_int (float64 (kept + added))))"

text \<open>
  Lines 671--681. \<open>roi\<close> is a view of \<open>result\<close>, so the assignments of the loop write into
  \<open>result\<close>. The rows of the view are \<open>ylo..<yhi\<close>, its columns \<open>xlo..<xhi\<close>; the slices of
  the accessory start at 0. Reading channel 3 of an accessory with fewer than four channels,
  or channel \<open>c < 3\<close> of a base with fewer than three, raises \<open>IndexError\<close>; operands whose
  shapes differ raise \<open>ValueError\<close>.
\<close>

definition blend_roi :: "ndarray \<Rightarrow> ndarray \<Rightarrow> int \<times> int \<Rightarrow> py_error + ndarray" where
  "blend_roi result ra off0 =
     (let off = place_offsets result ra off0;
          x_offset = fst off; y_offset = snd off;
          roi_width = fst (roi_size result ra off);
          roi_height = snd (roi_size result ra off);
          ylo = slice_idx (sh0 result) y_offset;
          yhi = slice_idx (sh0 result) (y_offset + roi_height);
          xlo = slice_idx (sh1 result) x_offset;
          xhi = slice_idx (sh1 result) (x_offset + roi_width);
          ah = slice_idx (sh0 ra) roi_height;
          aw = slice_idx (sh1 ra) roi_width
      in if sh2 ra < 4 then Inl IndexError
         else if sh2 result < 3 then Inl IndexError
         else if yhi - ylo \<noteq> ah \<or> xhi - xlo \<noteq> aw
         then Inl (ValueError ''operands could not be broadcast together'')
         else Inr (result\<lparr>elem := (\<lambda>i j c.
                if ylo \<le> i \<and> i < yhi \<and> xlo \<le> j \<and> j < xhi \<and> c < 3
                then blend_channel (elem ra (i - ylo) (j - xlo) 3)
                       (elem result i j c) (elem ra (i - ylo) (j - xlo) c)
                else elem result i j c)\<rparr>))"

text \<open>The body of the \<open>try\<close> block, on the copy \<open>result\<close> of the base image.\<close>

definition place_body ::
  "cv_lib \<Rightarrow> ndarray \<Rightarrow> ndarray \<Rightarrow> real \<Rightarrow> real \<Rightarrow> real \<Rightarrow> real \<Rightarrow> real
     \<Rightarrow> py_error + ndarray" where
  "place_body lib result accessory_image x y width height rotation =
     (case resized_accessory lib accessory_image width height rotation of
        Inl e \<Rightarrow> Inl e
      | Inr ra \<Rightarrow> blend_roi result ra (raw_offsets x y width height))"

text \<open>
  \<open>_place_accessory\<close> on references. The guard of line 622 returns the base itself; line 626
  copies the base into a new array; the \<open>try\<close> block writes into the copy and returns it;
  the handler of line 685 returns the base itself (the copy is then unreachable, and is
  left here as it was allocated).
\<close>

definition place_accessory ::
  "cv_lib \<Rightarrow> world \<Rightarrow> nat option \<Rightarrow> nat option \<Rightarrow> real \<Rightarrow> real \<Rightarrow> real \<Rightarrow> real \<Rightarrow> real
     \<Rightarrow> world \<times> nat option" where
  "place_accessory lib w base_image accessory_image x y width height rotation =
     (case accessory_image of
        None \<Rightarrow> (w, base_image)
      | Some a \<Rightarrow>
          (case base_image of
             None \<Rightarrow> (w, base_image)
           | Some b \<Rightarrow>
               (let (w1, result) = alloc w (objs w b)
                in case place_body lib (objs w1 result) (objs w1 a) x y width height rotation of
                     Inl e \<Rightarrow> (w1, Some b)
                   | Inr img \<Rightarrow> (w1\<lparr>objs := (objs w1)(result := img)\<rparr>, Some result))))"

subsection \<open>Landmarks and placements\<close>

text \<open>
  A landmark is a dictionary with the keys \<open>x\<close>, \<open>y\<close>, \<open>z\<close> and, for pose landmarks only,
  \<open>visibility\<close>. A pair such as \<open>shoulders\<close> is a dictionary read by \<open>.get('left')\<close> and
  \<open>.get('right')\<close>, which give \<open>None\<close> for an absent key as for a key holding \<open>None\<close>.
  An eye is a dictionary from names to landmarks or \<open>None\<close>, as \<open>_get_eye_landmarks\<close> of
  \<open>avatar_generator.py\<close> builds it; the face oval is a dictionary from indices to landmarks,
  in insertion order. A feature entry that is absent is \<open>None\<close>; an entry that is present
  holds a dictionary, as \<open>_detect_face_landmarks\<close> and \<open>_detect_pose_landmarks\<close> build
  it. A detection is the non-empty dictionary \<open>{'landmarks': ..., 'features': ...}\<close>, whose \<open>features\<close> key may be absent; an
  entry \<open>face\<close> or \<open>pose\<close> that is absent, \<open>None\<close> or empty is \<open>None\<close>.
\<close>

datatype landmark =
  Landmark (lm_x: real) (lm_y: real) (lm_z: real) (lm_visibility: "real option")

datatype sides = Sides (left_of: "landmark option") (right_of: "landmark option")

type_synonym eye = "(string \<times> landmark option) list"

record pose_features =
  shoulders :: "sides option"
  hips :: "sides option"
  wrists :: "sides option"
  neck :: "landmark option"

record face_features =
  left_eye :: "eye option"
  right_eye :: "eye option"
  face_oval :: "(nat \<times> landmark) list option"

datatype 'f detection = Detection (features_of: "'f option")

record landmark_set =
  face :: "face_features detection option"
  pose :: "pose_features detection option"

record placement =
  pl_x :: real
  pl_y :: real
  pl_width :: real
  pl_height :: real
  pl_rotation :: real

text \<open>\<open>d.get(key, {})\<close> for the dictionaries above.\<close>

definition get_pose_features :: "pose_features detection \<Rightarrow> pose_features" where
  "get_pose_features landmarks =
     (case features_of landmarks of
        None \<Rightarrow> \<lparr>shoulders = None, hips = None, wrists = None, neck = None\<rparr>
      | Some f \<Rightarrow> f)"

definition get_face_features :: "face_features detection \<Rightarrow> face_features" where
  "get_face_features landmarks =
     (case features_of landmarks of
        None \<Rightarrow> \<lparr>left_eye = None, right_eye = None, face_oval = None\<rparr>
      | Some f \<Rightarrow> f)"

definition get_sides :: "sides option \<Rightarrow> sides" where
  "get_sides s = (case s of None \<Rightarrow> Sides None None | Some d \<Rightarrow> d)"

definition get_list :: "'a list option \<Rightarrow> 'a list" where
  "get_list d = (case d of None \<Rightarrow> [] | Some xs \<Rightarrow> xs)"

text \<open>\<open>np.degrees\<close>.\<close>

definition degrees :: "real \<Rightarrow> real" where
  "degrees r = r * 180 / pi"

text \<open>Lines 374--381 and 458--465: the rotation from two points.\<close>

definition rotation_of :: "landmark \<Rightarrow> landmark \<Rightarrow> real" where
  "rotation_of l r =
     (let dy = lm_y r - lm_y l; dx = lm_x r - lm_x l
      in if dx \<noteq> 0 then degrees (arctan (dy / dx)) else 0)"

text \<open>\<open>_get_clothing_placement\<close>, with \<open>h, w = image.shape[:2]\<close>.\<close>

definition get_clothing_placement ::
  "nat \<Rightarrow> nat \<Rightarrow> pose_features detection \<Rightarrow> placement option" where
  "get_clothing_placement h w landmarks =
     (let features = get_pose_features landmarks;
          shoulders_d = get_sides (shoulders features);
          hips_d = get_sides (hips features);
          left_shoulder = left_of shoulders_d;
          right_shoulder = right_of shoulders_d;
          left_hip = left_of hips_d;
          right_hip = right_of hips_d
      in case left_shoulder of
           None \<Rightarrow> None
         | Some ls \<Rightarrow>
          (case right_shoulder of
             None \<Rightarrow> None
           | Some rs \<Rightarrow>
               (let center_x = (lm_x ls + lm_x rs) / 2;
                    center_y0 = (lm_y ls + lm_y rs) / 2;
                    hip_center =
                      (case left_hip of
                         None \<Rightarrow> None
                       | Some lh \<Rightarrow>
                           (case right_hip of
                              None \<Rightarrow> None
                            | Some rh \<Rightarrow> Some ((lm_y lh + lm_y rh) / 2)));
                    center_y =
                      (case hip_center of
                         Some hip_center_y \<Rightarrow> (center_y0 + hip_center_y) / 2
                       | None \<Rightarrow> center_y0 + real h * 0.1);
                    width = \<bar>lm_x rs - lm_x ls\<bar> * 2;
                    height =
                      (case hip_center of
                         Some hip_center_y \<Rightarrow>
                           max ((hip_center_y - center_y) * 2) (real h * 0.3)
                       | None \<Rightarrow> real h * 0.5);
                    rotation = rotation_of ls rs
                in Some \<lparr>pl_x = center_x, pl_y = center_y, pl_width = width,
                          pl_height = height, pl_rotation = rotation\<rparr>)))"

text \<open>\<open>_get_jewelry_placement\<close>.\<close>

definition get_jewelry_placement ::
  "nat \<Rightarrow> nat \<Rightarrow> pose_features detection \<Rightarrow> placement option" where
  "get_jewelry_placement h w landmarks =
     (let features = get_pose_features landmarks;
          shoulders_d = get_sides (shoulders features)
      in case neck features of
           None \<Rightarrow>
             (case left_of shoulders_d of
                None \<Rightarrow> None
              | Some ls \<Rightarrow>
                  (case right_of shoulders_d of
                     None \<Rightarrow> None
                   | Some rs \<Rightarrow>
                       (let center_x = (lm_x ls + lm_x rs) / 2;
                            center_y = (lm_y ls + lm_y rs) / 2 - real h * 0.05;
                            shoulder_width = \<bar>lm_x rs - lm_x ls\<bar>
                        in Some \<lparr>pl_x = center_x, pl_y = center_y,
                                  pl_width = shoulder_width * 0.6,
                                  pl_height = shoulder_width * 0.3, pl_rotation = 0\<rparr>)))
         | Some n \<Rightarrow>
             Some \<lparr>pl_x = lm_x n, pl_y = lm_y n, pl_width = real w * 0.2,
                   pl_height = real h * 0.1, pl_rotation = 0\<rparr>)"

text \<open>
  \<open>_get_glasses_placement\<close>. The test of line 441 asks whether the two eye dictionaries are
  non-empty and have the key \<open>center\<close>; lines 448--449 then subscript the values of that
  key, the left one first, which raises \<open>TypeError\<close> on \<open>None\<close>.
\<close>

definition get_glasses_placement ::
  "nat \<Rightarrow> nat \<Rightarrow> face_features detection \<Rightarrow> py_error + placement option" where
  "get_glasses_placement h w landmarks =
     (let features = get_face_features landmarks;
          left_eye_d = get_list (left_eye features);
          right_eye_d = get_list (right_eye features)
      in if left_eye_d = [] \<or> right_eye_d = [] then Inr None
         else
           (case map_of left_eye_d ''center'' of
              None \<Rightarrow> Inr None
            | Some left_value \<Rightarrow>
                (case map_of right_eye_d ''center'' of
                   None \<Rightarrow> Inr None
                 | Some right_value \<Rightarrow>
                     (case left_value of
                        None \<Rightarrow> Inl TypeError
                      | Some left_eye_center \<Rightarrow>
                          (case right_value of
                             None \<Rightarrow> Inl TypeError
                           | Some right_eye_center \<Rightarrow>
                               (let center_x =
                                      (lm_x left_eye_center + lm_x right_eye_center) / 2;
                                    center_y =
                                      (lm_y left_eye_center + lm_y right_eye_center) / 2;
                                    eye_distance =
                                      \<bar>lm_x right_eye_center - lm_x left_eye_center\<bar>;
                                    width = eye_distance * 2.2;
                                    height = width * 0.4;
                                    rotation = rotation_of left_eye_center right_eye_center
                                in Inr (Some \<lparr>pl_x = center_x, pl_y = center_y,
                                               pl_width = width, pl_height = height,
                                               pl_rotation = rotation\<rparr>)))))))"

text \<open>\<open>_get_hat_placement\<close>: the loop of lines 489--497, then the placement.\<close>

fun hat_scan ::
  "(nat \<times> landmark) list \<Rightarrow> landmark option \<times> landmark option \<times> landmark option
     \<Rightarrow> landmark option \<times> landmark option \<times> landmark option" where
  "hat_scan [] s = s"
| "hat_scan ((k, landmark) # rest) (top_lm, left_lm, right_lm) =
     hat_scan rest
       ((case top_lm of None \<Rightarrow> Some landmark
         | Some t \<Rightarrow> if lm_y landmark < lm_y t then Some landmark else Some t),
        (case left_lm of None \<Rightarrow> Some landmark
         | Some l \<Rightarrow> if lm_x landmark < lm_x l then Some landmark else Some l),
        (case right_lm of None \<Rightarrow> Some landmark
         | Some r \<Rightarrow> if lm_x landmark > lm_x r then Some landmark else Some r))"

definition get_hat_placement ::
  "nat \<Rightarrow> nat \<Rightarrow> face_features detection \<Rightarrow> placement option" where
  "get_hat_placement h w landmarks =
     (let features = get_face_features landmarks;
          face_oval_d = get_list (face_oval features)
      in case hat_scan face_oval_d (None, None, None) of
           (Some top_lm, Some left_lm, Some right_lm) \<Rightarrow>
             (let face_width = \<bar>lm_x right_lm - lm_x left_lm\<bar>;
                  width = face_width * 1.5;
                  center_x = (lm_x left_lm + lm_x right_lm) / 2;
                  center_y = lm_y top_lm - width * 0.2;
                  height = width * 0.6
              in Some \<lparr>pl_x = center_x, pl_y = center_y, pl_width = width,
                        pl_height = height, pl_rotation = 0\<rparr>)
         | _ \<Rightarrow> None)"

text \<open>
  \<open>_get_watch_placement\<close>. \<open>left_wrist['visibility']\<close> raises \<open>KeyError\<close> on a landmark
  without that key.
\<close>

definition get_watch_placement ::
  "nat \<Rightarrow> nat \<Rightarrow> pose_features detection \<Rightarrow> py_error + placement option" where
  "get_watch_placement h w landmarks =
     (let features = get_pose_features landmarks;
          wrists_d = get_sides (wrists features)
      in case left_of wrists_d of
           None \<Rightarrow> Inr None
         | Some left_wrist \<Rightarrow>
             (case lm_visibility left_wrist of
                None \<Rightarrow> Inl KeyError
              | Some v \<Rightarrow>
                  if v > 0.5
                  then (let wrist_size = real w * 0.1
                        in Inr (Some \<lparr>pl_x = lm_x left_wrist, pl_y = lm_y left_wrist,
                                       pl_width = wrist_size, pl_height = wrist_size,
                                       pl_rotation = 0\<rparr>))
                  else Inr None))"

text \<open>\<open>_get_default_placement\<close>; \<open>w // 2\<close> and \<open>h // 2\<close> divide integers.\<close>

definition get_default_placement :: "nat \<Rightarrow> nat \<Rightarrow> string \<Rightarrow> placement" where
  "get_default_placement h w position_type =
     (if position_type = ''head''
      then \<lparr>pl_x = real (w div 2), pl_y = real h * 0.15, pl_width = real w * 0.5,
            pl_height = real h * 0.2, pl_rotation = 0\<rparr>
      else if position_type = ''face''
      then \<lparr>pl_x = real (w div 2), pl_y = real h * 0.25, pl_width = real w * 0.4,
            pl_height = real h * 0.1, pl_rotation = 0\<rparr>
      else if position_type = ''neck''
      then \<lparr>pl_x = real (w div 2), pl_y = real h * 0.35, pl_width = real w * 0.3,
            pl_height = real h * 0.1, pl_rotation = 0\<rparr>
      else if position_type = ''torso''
      then \<lparr>pl_x = real (w div 2), pl_y = real h * 0.5, pl_width = real w * 0.7,
            pl_height = real h * 0.4, pl_rotation = 0\<rparr>
      else if position_type = ''wrist''
      then \<lparr>pl_x = real w * 0.7, pl_y = real h * 0.6, pl_width = real w * 0.15,
            pl_height = real w * 0.15, pl_rotation = 0\<rparr>
      else \<lparr>pl_x = real (w div 2), pl_y = real (h div 2), pl_width = real w * 0.5,
            pl_height = real h * 0.3, pl_rotation = 0\<rparr>)"

subsection \<open>Categories and the \<open>_apply_*\<close> methods\<close>

datatype AccessoryType = CLOTHING | JEWELRY | GLASSES | HATS | WATCHES | OTHER

text \<open>
  Lines 69--73: \<open>AccessoryType(category)\<close> looks the value up and raises for any other
  value; the handler then takes \<open>OTHER\<close>.
\<close>

definition category_enum :: "string \<Rightarrow> AccessoryType" where
  "category_enum category =
     (if category = ''clothing'' then CLOTHING
      else if category = ''jewelry'' then JEWELRY
      else if category = ''glasses'' then GLASSES
      else if category = ''hats'' then HATS
      else if category = ''watches'' then WATCHES
      else OTHER)"

text \<open>
  The tests \<open>landmarks and 'pose' in landmarks and landmarks['pose']\<close> and
  \<open>landmarks and 'face' in landmarks and landmarks['face']\<close>.
\<close>

definition pose_entry :: "landmark_set option \<Rightarrow> pose_features detection option" where
  "pose_entry landmarks = (case landmarks of None \<Rightarrow> None | Some ls \<Rightarrow> pose ls)"

definition face_entry :: "landmark_set option \<Rightarrow> face_features detection option" where
  "face_entry landmarks = (case landmarks of None \<Rightarrow> None | Some ls \<Rightarrow> face ls)"

text \<open>\<open>if not placement: placement = self._get_default_placement(...)\<close>.\<close>

definition or_default :: "placement option \<Rightarrow> placement \<Rightarrow> placement" where
  "or_default p d = (case p of None \<Rightarrow> d | Some q \<Rightarrow> q)"

text \<open>
  The six methods \<open>_apply_clothing\<close>, \<open>_apply_jewelry\<close>, \<open>_apply_glasses\<close>, \<open>_apply_hat\<close>,
  \<open>_apply_watch\<close> and \<open>_apply_generic_accessory\<close> differ only in the placement rule and in
  the default position; \<open>compute_placement\<close> is the placement each of them computes before
  it composites, for an avatar of height \<open>h\<close> and width \<open>w\<close>.
\<close>

definition compute_placement ::
  "AccessoryType \<Rightarrow> nat \<Rightarrow> nat \<Rightarrow> landmark_set option \<Rightarrow> py_error + placement" where
  "compute_placement category h w landmarks =
     (case category of
        CLOTHING \<Rightarrow>
          Inr (or_default
                 (case pose_entry landmarks of
                    None \<Rightarrow> None | Some d \<Rightarrow> get_clothing_placement h w d)
                 (get_default_placement h w ''torso''))
      | JEWELRY \<Rightarrow>
          Inr (or_default
                 (case pose_entry landmarks of
                    None \<Rightarrow> None | Some d \<Rightarrow> get_jewelry_placement h w d)
                 (get_default_placement h w ''neck''))
      | GLASSES \<Rightarrow>
          (case (case face_entry landmarks of
                   None \<Rightarrow> Inr None | Some d \<Rightarrow> get_glasses_placement h w d) of
             Inl e \<Rightarrow> Inl e
           | Inr p \<Rightarrow> Inr (or_default p (get_default_placement h w ''face'')))
      | HATS \<Rightarrow>
          Inr (or_default
                 (case face_entry landmarks of
                    None \<Rightarrow> None | Some d \<Rightarrow> get_hat_placement h w d)
                 (get_default_placement h w ''head''))
      | WATCHES \<Rightarrow>
          (case (case pose_entry landmarks of
                   None \<Rightarrow> Inr None | Some d \<Rightarrow> get_watch_placement h w d) of
             Inl e \<Rightarrow> Inl e
           | Inr p \<Rightarrow> Inr (or_default p (get_default_placement h w ''wrist'')))
      | OTHER \<Rightarrow> Inr (get_default_placement h w ''center''))"

text \<open>
  An \<open>_apply_*\<close> method: copy the avatar, compute the placement from the avatar's shape,
  composite onto the copy.
\<close>

definition apply_category ::
  "cv_lib \<Rightarrow> world \<Rightarrow> AccessoryType \<Rightarrow> nat \<Rightarrow> nat \<Rightarrow> landmark_set option
     \<Rightarrow> (py_error + nat option) \<times> world" where
  "apply_category lib w category avatar_image accessory_image landmarks =
     (let (w1, result) = alloc w (objs w avatar_image);
          h = sh0 (objs w avatar_image);
          wd = sh1 (objs w avatar_image)
      in case compute_placement category h wd landmarks of
           Inl e \<Rightarrow> (Inl e, w1)
         | Inr p \<Rightarrow>
             (let (w2, r) = place_accessory lib w1 (Some result) (Some accessory_image)
                              (pl_x p) (pl_y p) (pl_width p) (pl_height p) (pl_rotation p)
              in (Inr r, w2)))"

subsection \<open>The accessory resolver: \<open>_get_accessory_image\<close>\<close>

text \<open>
  An accessory is an array, a dictionary with an optional key \<open>path\<close> and an optional key
  \<open>image\<close> (holding an array), or any other object.
\<close>

datatype accessory =
    AccArray nat
  | AccDict "string option" "nat option"
  | AccOther

text \<open>\<open>_create_placeholder_accessory\<close>, lines 146--156.\<close>

definition create_placeholder_accessory :: "cv_lib \<Rightarrow> nat \<times> nat \<Rightarrow> ndarray" where
  "create_placeholder_accessory lib size_wh =
     (let placeholder = \<lparr>sh0 = snd size_wh, sh1 = fst size_wh, sh2 = 4, elem = (\<lambda>i j c. 0)\<rparr>;
          color = [255, 0, 255, 128];
          filled = cv_rectangle lib placeholder (10, 10)
                     (int (fst size_wh) - 10, int (snd size_wh) - 10) color (- 1);
          border_color = [255, 255, 255, 200]
      in cv_rectangle lib filled (10, 10)
           (int (fst size_wh) - 10, int (snd size_wh) - 10) border_color 2)"

text \<open>Lines 128--133: a three-channel image gets a fully opaque fourth channel.\<close>

definition ensure_alpha :: "world \<Rightarrow> nat \<Rightarrow> (py_error + nat) \<times> world" where
  "ensure_alpha w accessory_image =
     (let a = objs w accessory_image
      in if sh2 a = 3
         then (let (w1, r) = alloc w (a\<lparr>sh2 := 4,
                                 elem := (\<lambda>i j c. if c = 3 then 255 else elem a i j c)\<rparr>)
               in (Inr r, w1))
         else (Inr accessory_image, w))"

text \<open>
  \<open>_get_accessory_image\<close>. A cached path returns at once (line 112). \<open>cv2.imread\<close> yields
  \<open>None\<close> for a file it cannot decode, and line 128 then raises \<open>AttributeError\<close>. No line of
  the class stores into \<open>accessory_cache\<close>.
\<close>

definition get_accessory_image ::
  "cv_lib \<Rightarrow> world \<Rightarrow> accessory \<Rightarrow> (py_error + nat) \<times> world" where
  "get_accessory_image lib w acc =
     (case acc of
        AccArray a \<Rightarrow> ensure_alpha w a
      | AccDict (Some path) img \<Rightarrow>
          (case accessory_cache w path of
             Some cached \<Rightarrow> (Inr cached, w)
           | None \<Rightarrow>
               if os_path_exists lib path
               then (let w1 = w\<lparr>decodes := Suc (decodes w)\<rparr>
                     in case cv_imread lib path of
                          None \<Rightarrow> (Inl AttributeError, w1)
                        | Some decoded \<Rightarrow>
                            (let (w2, r) = alloc w1 decoded in ensure_alpha w2 r))
               else (let (w1, r) = alloc w (create_placeholder_accessory lib (100, 100))
                     in ensure_alpha w1 r))
      | AccDict None (Some a) \<Rightarrow> ensure_alpha w a
      | AccDict None None \<Rightarrow>
          (let (w1, r) = alloc w (create_placeholder_accessory lib (100, 100))
           in ensure_alpha w1 r)
      | AccOther \<Rightarrow>
          (let (w1, r) = alloc w (create_placeholder_accessory lib (100, 100))
           in ensure_alpha w1 r))"

subsection \<open>The entry point: \<open>apply_accessory\<close>\<close>

definition apply_accessory ::
  "cv_lib \<Rightarrow> world \<Rightarrow> nat option \<Rightarrow> accessory option \<Rightarrow> string \<Rightarrow> landmark_set option
     \<Rightarrow> (py_error + nat option) \<times> world" where
  "apply_accessory lib w avatar_image acc category landmarks =
     (case avatar_image of
        None \<Rightarrow> (Inl (ValueError ''Avatar image is required''), w)
      | Some avatar \<Rightarrow>
          (case acc of
             None \<Rightarrow> (Inl (ValueError ''Accessory data is required''), w)
           | Some a \<Rightarrow>
               (case get_accessory_image lib w a of
                  (Inl e, w1) \<Rightarrow> (Inl e, w1)
                | (Inr accessory_image, w1) \<Rightarrow>
                    apply_category lib w1 (category_enum category) avatar accessory_image
                      landmarks)))"

subsection \<open>Named landmarks of a landmark set\<close>

text \<open>
  The landmarks a placement rule asks for, read through the same tests and \<open>.get\<close> calls as
  the rules make: the result is \<open>None\<close> when any dictionary on the way is absent. For an eye,
  \<open>eye_center_entry\<close> is the entry of the key \<open>center\<close>: \<open>None\<close> when the eye has no such
  key, \<open>Some None\<close> when the key holds \<open>None\<close>.
\<close>

definition left_shoulder :: "landmark_set option \<Rightarrow> landmark option" where
  "left_shoulder landmarks =
     (case pose_entry landmarks of
        None \<Rightarrow> None
      | Some d \<Rightarrow> left_of (get_sides (shoulders (get_pose_features d))))"

definition right_shoulder :: "landmark_set option \<Rightarrow> landmark option" where
  "right_shoulder landmarks =
     (case pose_entry landmarks of
        None \<Rightarrow> None
      | Some d \<Rightarrow> right_of (get_sides (shoulders (get_pose_features d))))"

definition left_hip :: "landmark_set option \<Rightarrow> landmark option" where
  "left_hip landmarks =
     (case pose_entry landmarks of
        None \<Rightarrow> None
      | Some d \<Rightarrow> left_of (get_sides (hips (get_pose_features d))))"

definition right_hip :: "landmark_set option \<Rightarrow> landmark option" where
  "right_hip landmarks =
     (case pose_entry landmarks of
        None \<Rightarrow> None
      | Some d \<Rightarrow> right_of (get_sides (hips (get_pose_features d))))"

definition left_wrist :: "landmark_set option \<Rightarrow> landmark option" where
  "left_wrist landmarks =
     (case pose_entry landmarks of
        None \<Rightarrow> None
      | Some d \<Rightarrow> left_of (get_sides (wrists (get_pose_features d))))"

definition neck_point :: "landmark_set option \<Rightarrow> landmark option" where
  "neck_point landmarks =
     (case pose_entry landmarks of
        None \<Rightarrow> None
      | Some d \<Rightarrow> neck (get_pose_features d))"

definition left_eye_center_entry :: "landmark_set option \<Rightarrow> landmark option option" where
  "left_eye_center_entry landmarks =
     (case face_entry landmarks of
        None \<Rightarrow> None
      | Some d \<Rightarrow> map_of (get_list (left_eye (get_face_features d))) ''center'')"

definition right_eye_center_entry :: "landmark_set option \<Rightarrow> landmark option option" where
  "right_eye_center_entry landmarks =
     (case face_entry landmarks of
        None \<Rightarrow> None
      | Some d \<Rightarrow> map_of (get_list (right_eye (get_face_features d))) ''center'')"

definition face_oval_points :: "landmark_set option \<Rightarrow> (nat \<times> landmark) list" where
  "face_oval_points landmarks =
     (case face_entry landmarks of
        None \<Rightarrow> []
      | Some d \<Rightarrow> get_list (face_oval (get_face_features d)))"

subsection \<open>Concrete inputs for the examples\<close>

text \<open>
  A library instance for the examples: \<open>cv2.resize\<close> rejects an empty target size and
  otherwise samples the nearest source pixel, the rotation keeps the bitmap,
  \<open>cv2.rectangle\<close> fills the rectangle for a negative thickness and draws its outline
  otherwise; one file decodes, one exists and does not decode.
\<close>

definition demo_accessory :: ndarray where
  "demo_accessory =
     \<lparr>sh0 = 2, sh1 = 2, sh2 = 4, elem = (\<lambda>i j c. if c = 3 then 255 else 200)\<rparr>"

definition demo_base :: ndarray where
  "demo_base = \<lparr>sh0 = 4, sh1 = 4, sh2 = 4, elem = (\<lambda>i j c. if c = 3 then 255 else 10)\<rparr>"

definition demo_lib :: cv_lib where
  "demo_lib =
     \<lparr>cv_resize = (\<lambda>a dsize.
        if fst dsize \<le> 0 \<or> snd dsize \<le> 0 then Inl CvError
        else Inr \<lparr>sh0 = nat (snd dsize), sh1 = nat (fst dsize), sh2 = sh2 a,
                  elem = (\<lambda>i j c. elem a (i * sh0 a div nat (snd dsize))
                                         (j * sh1 a div nat (fst dsize)) c)\<rparr>),
      cv_warp = (\<lambda>a center angle dsize. Inr a),
      cv_rectangle = (\<lambda>a pt1 pt2 color thickness.
        a\<lparr>elem := (\<lambda>i j c.
             if fst pt1 \<le> int j \<and> int j \<le> fst pt2 \<and> snd pt1 \<le> int i \<and> int i \<le> snd pt2 \<and>
                (thickness < 0 \<or> int j < fst pt1 + thickness \<or> fst pt2 - thickness < int j \<or>
                 int i < snd pt1 + thickness \<or> snd pt2 - thickness < int i) \<and>
                c < length color
             then color ! c else elem a i j c)\<rparr>),
      cv_imread = (\<lambda>path. if path = ''accessories/hats/1.png'' then Some demo_accessory
                          else None),
      os_path_exists = (\<lambda>path. path = ''accessories/hats/1.png'' \<or>
                                path = ''accessories/hats/broken.png'')\<rparr>"

definition demo_world :: world where
  "demo_world =
     \<lparr>objs = (\<lambda>k. if k = 0 then demo_base else demo_accessory), nxt = 2,
      accessory_cache = Map.empty, decodes = 0\<rparr>"


text \<open>
  Landmark sets: level shoulders with hips and a barely visible left wrist; tilted
  shoulders without hips; shoulders one above the other; a face whose eyes have the key
  \<open>center\<close> holding \<open>None\<close>, as \<open>_get_eye_landmarks\<close> writes it when the face mesh has no
  landmark 468 or 473.
\<close>

definition shoulders_level :: landmark_set where
  "shoulders_level =
     \<lparr>face = None,
      pose = Some (Detection (Some
        \<lparr>shoulders = Some (Sides (Some (Landmark 100 200 0 (Some 0.9)))
                                  (Some (Landmark 300 200 0 (Some 0.9)))),
         hips = Some (Sides (Some (Landmark 120 400 0 (Some 0.9)))
                             (Some (Landmark 280 400 0 (Some 0.9)))),
         wrists = Some (Sides (Some (Landmark 90 420 0 (Some 0.2))) None),
         neck = Some (Landmark 200 190 0 None)\<rparr>))\<rparr>"

definition shoulders_tilted :: landmark_set where
  "shoulders_tilted =
     \<lparr>face = None,
      pose = Some (Detection (Some
        \<lparr>shoulders = Some (Sides (Some (Landmark 100 180 0 (Some 0.9)))
                                  (Some (Landmark 300 220 0 (Some 0.9)))),
         hips = Some (Sides None None),
         wrists = None,
         neck = None\<rparr>))\<rparr>"

definition shoulders_stacked :: landmark_set where
  "shoulders_stacked =
     \<lparr>face = None,
      pose = Some (Detection (Some
        \<lparr>shoulders = Some (Sides (Some (Landmark 200 100 0 (Some 0.9)))
                                  (Some (Landmark 200 300 0 (Some 0.9)))),
         hips = None, wrists = None, neck = None\<rparr>))\<rparr>"

definition eyes_without_center :: landmark_set where
  "eyes_without_center =
     \<lparr>face = Some (Detection (Some
        \<lparr>left_eye = Some [(''center'', None),
                           (''left_corner'', Some (Landmark 260 150 0 None)),
                           (''right_corner'', Some (Landmark 220 150 0 None))],
         right_eye = Some [(''center'', None),
                            (''left_corner'', Some (Landmark 180 150 0 None)),
                            (''right_corner'', Some (Landmark 140 150 0 None))],
         face_oval = Some [(0, Landmark 200 60 0 None), (1, Landmark 300 200 0 None),
                           (2, Landmark 100 200 0 None)]\<rparr>)),
      pose = None\<rparr>"



section \<open>Properties\<close>

subsection \<open>Auxiliary facts about the compositor\<close>

lemma slice_idx_in: "0 \<le> k \<Longrightarrow> k \<le> int n \<Longrightarrow> slice_idx n k = nat k"
  by (simp add: slice_idx_def)

lemma place_offsets_nonneg:
  "0 \<le> fst (place_offsets result ra off) \<and> 0 \<le> snd (place_offsets result ra off)"
  by (auto simp: place_offsets_def out_of_bounds_def)

lemma place_offsets_upper:
  "fst (place_offsets result ra off) \<le> int (sh1 result) \<and>
   snd (place_offsets result ra off) \<le> int (sh0 result)"
  by (auto simp: place_offsets_def out_of_bounds_def)

lemma roi_size_bounds:
  assumes "p = place_offsets result ra off"
  shows "0 \<le> fst (roi_size result ra p)" "0 \<le> snd (roi_size result ra p)"
    "fst p + fst (roi_size result ra p) \<le> int (sh1 result)"
    "snd p + snd (roi_size result ra p) \<le> int (sh0 result)"
    "fst (roi_size result ra p) \<le> int (sh1 ra)"
    "snd (roi_size result ra p) \<le> int (sh0 ra)"
  using place_offsets_upper [of result ra off] assms
  by (auto simp: roi_size_def)

text \<open>The slices of lines 671 and 674 are the plain index ranges.\<close>

lemma roi_slices:
  assumes "p = place_offsets result ra off" and "s = roi_size result ra p"
  shows "slice_idx (sh0 result) (snd p) = nat (snd p)"
    and "slice_idx (sh0 result) (snd p + snd s) = nat (snd p) + nat (snd s)"
    and "slice_idx (sh1 result) (fst p) = nat (fst p)"
    and "slice_idx (sh1 result) (fst p + fst s) = nat (fst p) + nat (fst s)"
    and "slice_idx (sh0 ra) (snd s) = nat (snd s)"
    and "slice_idx (sh1 ra) (fst s) = nat (fst s)"
  using roi_size_bounds [OF assms(1)] place_offsets_nonneg [of result ra off]
    place_offsets_upper [of result ra off] assms
  by (simp_all add: slice_idx_in nat_add_distrib)

lemma blend_roi_shape:
  "blend_roi result ra off = Inr res \<Longrightarrow>
   sh0 res = sh0 result \<and> sh1 res = sh1 result \<and> sh2 res = sh2 result"
  by (auto simp: blend_roi_def Let_def split: if_splits)

lemma blend_roi_elem:
  assumes "blend_roi result ra off = Inr res"
    and "p = place_offsets result ra off" and "s = roi_size result ra p"
  shows "elem res i j c =
     (if nat (snd p) \<le> i \<and> i < nat (snd p) + nat (snd s) \<and>
         nat (fst p) \<le> j \<and> j < nat (fst p) + nat (fst s) \<and> c < 3
      then blend_channel (elem ra (i - nat (snd p)) (j - nat (fst p)) 3)
             (elem result i j c) (elem ra (i - nat (snd p)) (j - nat (fst p)) c)
      else elem result i j c)"
proof -
  note sl = roi_slices [OF assms(2,3)]
  from assms(1) have "res = result\<lparr>elem := (\<lambda>i j c.
      if nat (snd p) \<le> i \<and> i < nat (snd p) + nat (snd s) \<and>
         nat (fst p) \<le> j \<and> j < nat (fst p) + nat (fst s) \<and> c < 3
      then blend_channel (elem ra (i - nat (snd p)) (j - nat (fst p)) 3)
             (elem result i j c) (elem ra (i - nat (snd p)) (j - nat (fst p)) c)
      else elem result i j c)\<rparr>"
    unfolding blend_roi_def Let_def assms(2) [symmetric] assms(3) [symmetric] sl
    by (simp split: if_splits)
  then show ?thesis by simp
qed

lemma blend_roi_succeeds:
  "4 \<le> sh2 ra \<Longrightarrow> 3 \<le> sh2 result \<Longrightarrow> \<exists>res. blend_roi result ra off = Inr res"
  unfolding blend_roi_def Let_def
  using roi_slices [where result = result and ra = ra and off = off, OF refl refl]
  by simp

text \<open>Doubles: small integers are exact, and so is the blend at alpha 0 and 255.\<close>

lemma round_even_of_int [simp]: "round_even (of_int m) = m"
  by (simp add: round_even_def)

lemma float64_eval:
  assumes "2 powr of_int k \<le> \<bar>x\<bar>" and "\<bar>x\<bar> < 2 powr of_int (k + 1)"
  shows "float64 x = of_int (round_even (x / 2 powr of_int (k - 52))) * 2 powr of_int (k - 52)"
proof -
  have pos: "0 < \<bar>x\<bar>"
    using assms(1) by (smt (verit) powr_gt_zero)
  then have "\<lfloor>log 2 \<bar>x\<bar>\<rfloor> = k"
    using assms by (subst floor_log_eq_powr_iff) simp_all
  with pos show ?thesis
    by (simp add: float64_def Let_def)
qed

lemma float64_zero [simp]: "float64 0 = 0"
  by (simp add: float64_def)

lemma float64_of_nat:
  assumes "n < 2 ^ 53"
  shows "float64 (real n) = real n"
proof (cases "n = 0")
  case True
  then show ?thesis by simp
next
  case False
  define k where "k = \<lfloor>log 2 (real n)\<rfloor>"
  have n1: "1 \<le> real n" using False by simp
  have "log 2 (real n) < 53"
    using log_of_power_less [of n 2 53] assms False by simp
  then have k52: "k \<le> 52" unfolding k_def by linarith
  define m where "m = nat (52 - k)"
  have e: "(of_int (k - 52) :: real) = - real m"
    unfolding m_def using k52 by simp
  have p: "(2 :: real) powr of_int (k - 52) = inverse (2 ^ m)"
    unfolding e by (simp add: powr_minus powr_realpow)
  have "real n / 2 powr of_int (k - 52) = of_int (int n * 2 ^ m)"
    unfolding p by (simp add: divide_inverse)
  then have "round_even (real n / 2 powr of_int (k - 52)) = int n * 2 ^ m"
    by (simp only: round_even_of_int)
  then have "of_int (round_even (real n / 2 powr of_int (k - 52))) * 2 powr of_int (k - 52)
             = real n"
    unfolding p by simp
  with False show ?thesis
    by (simp add: float64_def Let_def k_def)
qed

lemma float64_one [simp]: "float64 1 = 1"
  using float64_of_nat [of 1] by simp

lemma float64_unat: "float64 (real (unat (b :: 8 word))) = real (unat b)"
proof -
  have "unat b < 2 ^ 8" using unsigned_less [of b] by simp
  then have "unat b < 2 ^ 53" by simp
  then show ?thesis by (rule float64_of_nat)
qed

lemma floor_real_unat: "\<lfloor>real (unat (b :: 8 word))\<rfloor> = uint b"
  by (simp only: floor_of_nat) simp

lemma py_int_unat: "py_int (real (unat (b :: 8 word))) = uint b"
  by (simp only: py_int_def of_nat_0_le_iff if_True floor_real_unat)

lemma blend_channel_transparent: "blend_channel 0 b v = b"
proof -
  have a: "real (unat (0 :: 8 word)) / 255 = 0" by simp
  show ?thesis
    unfolding blend_channel_def Let_def a
    by (simp only: float64_zero diff_zero float64_one mult_1 mult_zero_left add_0_right
          float64_unat py_int_unat word_of_int_uint)
qed

lemma blend_channel_opaque: "blend_channel 255 b v = v"
proof -
  have a: "real (unat (255 :: 8 word)) / 255 = 1" by simp
  show ?thesis
    unfolding blend_channel_def Let_def a
    by (simp only: float64_zero diff_self float64_one mult_1 mult_zero_left add_0
          float64_unat py_int_unat word_of_int_uint)
qed


text \<open>
  An alpha in between: with alpha 5, base 3 and accessory 3 the sum of line 678 is the
  double just below 3, and the byte stored is 2.
\<close>

lemma float64_alpha_5: "float64 (5 / 255) = 5651576002974740 / 2 ^ 58"
  using float64_eval [of "- 6" "5 / 255"]
  by (simp add: round_even_def Let_def powr_neg_numeral)

lemma float64_one_minus_alpha_5: "float64 (1 - 5651576002974740 / 2 ^ 58) = 8830587504648031 / 2 ^ 53"
  using float64_eval [of "- 1" "1 - 5651576002974740 / 2 ^ 58"]
  by (simp add: round_even_def Let_def powr_neg_numeral)

lemma float64_kept_5_3: "float64 (8830587504648031 / 2 ^ 53 * 3) = 6622940628486023 / 2 ^ 51"
  using float64_eval [of 1 "8830587504648031 / 2 ^ 53 * 3"]
  by (simp add: round_even_def Let_def powr_neg_numeral)

lemma float64_added_5_3: "float64 (5651576002974740 / 2 ^ 58 * 3) = 8477364004462110 / 2 ^ 57"
  using float64_eval [of "- 5" "5651576002974740 / 2 ^ 58 * 3"]
  by (simp add: round_even_def Let_def powr_neg_numeral)

lemma float64_sum_5_3: "float64 (6622940628486023 / 2 ^ 51 + 8477364004462110 / 2 ^ 57)
               = 6755399441055743 / 2 ^ 51"
  using float64_eval [of 1 "6622940628486023 / 2 ^ 51 + 8477364004462110 / 2 ^ 57"]
  by (simp add: round_even_def Let_def powr_neg_numeral)

lemma blend_channel_5_3_3: "blend_channel 5 3 3 = 2"
proof -
  have u: "real (unat (5 :: 8 word)) = 5" "real (unat (3 :: 8 word)) = 3" by simp_all
  have "py_int (6755399441055743 / 2 ^ 51) = 2"
    by (simp add: py_int_def)
  then show ?thesis
    unfolding blend_channel_def Let_def u float64_alpha_5 float64_one_minus_alpha_5 float64_kept_5_3 float64_added_5_3 float64_sum_5_3
    by simp
qed

lemma place_body_blend:
  "resized_accessory lib accessory_image width height rotation = Inr ra \<Longrightarrow>
   place_body lib result accessory_image x y width height rotation
     = blend_roi result ra (raw_offsets x y width height)"
  by (simp add: place_body_def)

lemma place_body_frame:
  assumes "place_body lib result accessory_image x y width height rotation = Inr res"
  shows "sh0 res = sh0 result \<and> sh1 res = sh1 result \<and> sh2 res = sh2 result \<and>
         (\<forall>i j c. 3 \<le> c \<longrightarrow> elem res i j c = elem result i j c)"
proof -
  from assms obtain ra where
    b: "blend_roi result ra (raw_offsets x y width height) = Inr res"
    by (auto simp: place_body_def split: sum.splits)
  have "elem res i j c = elem result i j c" if "3 \<le> c" for i j c
    using that blend_roi_elem [OF b refl refl, of i j c] by simp
  with blend_roi_shape [OF b] show ?thesis by blast
qed

lemma place_body_elem:
  assumes "place_body lib result accessory_image x y width height rotation = Inr res"
  shows "\<exists>ra. resized_accessory lib accessory_image width height rotation = Inr ra \<and>
           4 \<le> sh2 ra \<and> 3 \<le> sh2 result \<and>
           blend_roi result ra (raw_offsets x y width height) = Inr res"
proof -
  from assms obtain ra where
    r: "resized_accessory lib accessory_image width height rotation = Inr ra"
    and b: "blend_roi result ra (raw_offsets x y width height) = Inr res"
    by (auto simp: place_body_def split: sum.splits)
  from b have "4 \<le> sh2 ra \<and> 3 \<le> sh2 result"
    by (auto simp: blend_roi_def Let_def split: if_splits)
  with r b show ?thesis by blast
qed

lemma place_body_succeeds:
  assumes "resized_accessory lib accessory_image width height rotation = Inr ra"
    and "4 \<le> sh2 ra" and "3 \<le> sh2 result"
  shows "\<exists>res. place_body lib result accessory_image x y width height rotation = Inr res"
  using blend_roi_succeeds [OF assms(2,3)] place_body_blend [OF assms(1)] by simp

lemma place_body_unchanged:
  assumes "place_body lib result accessory_image x y width height rotation = Inr res"
    and "\<forall>i j c. elem res i j c = elem result i j c"
  shows "res = result"
proof -
  from assms(1) obtain ra where
    b: "blend_roi result ra (raw_offsets x y width height) = Inr res"
    using place_body_elem by blast
  from assms(2) have "elem res = elem result" by (intro ext) simp
  moreover from b have "ndarray.more res = ndarray.more result"
    by (auto simp: blend_roi_def Let_def split: if_splits)
  ultimately show ?thesis using blend_roi_shape [OF b] by simp
qed

text \<open>What \<open>_place_accessory\<close> returns, in terms of the body of its \<open>try\<close> block.\<close>

lemma place_accessory_none:
  "accessory_image = None \<or> base_image = None \<Longrightarrow>
   place_accessory lib w base_image accessory_image x y width height rotation
     = (w, base_image)"
  by (auto simp: place_accessory_def split: option.splits)

lemma place_accessory_some:
  assumes "b < nxt w" and "a < nxt w"
  shows "place_accessory lib w (Some b) (Some a) x y width height rotation =
     (case place_body lib (objs w b) (objs w a) x y width height rotation of
        Inl e \<Rightarrow> (w\<lparr>objs := (objs w)(nxt w := objs w b), nxt := Suc (nxt w)\<rparr>, Some b)
      | Inr img \<Rightarrow> (w\<lparr>objs := (objs w)(nxt w := img), nxt := Suc (nxt w)\<rparr>, Some (nxt w)))"
  using assms by (auto simp: place_accessory_def alloc_def split: sum.splits)

lemma demo_resize:
  "resized_accessory demo_lib a 2 2 0 =
     Inr \<lparr>sh0 = 2, sh1 = 2, sh2 = sh2 a,
          elem = (\<lambda>i j c. elem a (i * sh0 a div 2) (j * sh1 a div 2) c)\<rparr>"
  by (simp add: resized_accessory_def demo_lib_def py_int_def)

subsection \<open>Auxiliary facts about angles\<close>

lemma arctan_le_self:
  assumes "0 \<le> (x::real)"
  shows "arctan x \<le> x"
proof -
  have "(\<lambda>t. t - arctan t) 0 \<le> (\<lambda>t. t - arctan t) x"
  proof (rule DERIV_nonneg_imp_nondecreasing [OF assms])
    fix t :: real
    have "DERIV (\<lambda>t. t - arctan t) t :> 1 - inverse (1 + t\<^sup>2)"
      by (auto intro!: derivative_eq_intros)
    moreover have "inverse (1 + t\<^sup>2) \<le> 1"
      by (rule inverse_le_1_iff [THEN iffD2]) simp
    ultimately show "\<exists>y. DERIV (\<lambda>t. t - arctan t) t :> y \<and> 0 \<le> y"
      by (intro exI [of _ "1 - inverse (1 + t\<^sup>2)"]) simp
  qed
  then show ?thesis by simp
qed

lemma arctan_ge_sin:
  assumes "0 \<le> (x::real)"
  shows "x / sqrt (1 + x\<^sup>2) \<le> arctan x"
  using sin_x_le_x [of "arctan x"] assms by (simp add: sin_arctan)

lemma arctan_239_bounds: "1 / 242 \<le> arctan (1 / 239)" "arctan (1 / 239) \<le> 1 / 239"
proof -
  have "sqrt (1 + (1 / 239)\<^sup>2) \<le> (101 / 100 :: real)"
    by (rule real_le_lsqrt) (simp_all add: power2_eq_square)
  then have "(1 / 239) / (101 / 100) \<le> (1 / 239) / sqrt (1 + (1 / 239 :: real)\<^sup>2)"
    by (intro divide_left_mono) (simp_all add: add_pos_nonneg)
  also have "\<dots> \<le> arctan (1 / 239)"
    by (rule arctan_ge_sin) simp
  finally show "1 / 242 \<le> arctan (1 / 239)" by simp
  show "arctan (1 / 239) \<le> 1 / 239"
    by (rule arctan_le_self) simp
qed

lemma arctan_5_bounds: "49 / 250 \<le> arctan (1 / 5)" "arctan (1 / 5) \<le> 1 / 5"
proof -
  have "sqrt (1 + (1 / 5)\<^sup>2) \<le> (102 / 100 :: real)"
    by (rule real_le_lsqrt) (simp_all add: power2_eq_square)
  then have "(1 / 5) / (102 / 100) \<le> (1 / 5) / sqrt (1 + (1 / 5 :: real)\<^sup>2)"
    by (intro divide_left_mono) (simp_all add: add_pos_nonneg)
  also have "\<dots> \<le> arctan (1 / 5)"
    by (rule arctan_ge_sin) simp
  finally show "49 / 250 \<le> arctan (1 / 5)" by simp
  show "arctan (1 / 5) \<le> 1 / 5"
    by (rule arctan_le_self) simp
qed

lemma pi_bounds: "31 / 10 \<le> pi" "pi \<le> 16 / 5"
proof -
  have m: "pi = 16 * arctan (1 / 5) - 4 * arctan (1 / 239)"
    using machin by simp
  show "31 / 10 \<le> pi"
    using arctan_5_bounds(1) arctan_239_bounds(2) unfolding m by linarith
  show "pi \<le> 16 / 5"
    using arctan_5_bounds(2) arctan_239_bounds(1) unfolding m by linarith
qed

lemma degrees_arctan_fifth: "\<bar>degrees (arctan (40 / 200)) - 11.31\<bar> < 0.005"
proof -
  define q where "q = arctan (1 / 239) / pi"
  have a5: "arctan (1 / 5) = pi / 16 + arctan (1 / 239) / 4"
    using machin by simp
  have d: "degrees (arctan (1 / 5)) = 45 / 4 + 45 * q"
    unfolding degrees_def a5 q_def by (simp add: field_simps)
  have "q \<le> (1 / 239) / (31 / 10)"
    unfolding q_def using arctan_239_bounds pi_bounds by (intro frac_le) simp_all
  then have up: "q \<le> 10 / 7409" by simp
  have "(1 / 242) / (16 / 5) \<le> q"
    unfolding q_def using arctan_239_bounds pi_bounds by (intro frac_le) simp_all
  then have lo: "5 / 3872 \<le> q" by simp
  have "\<bar>(45 / 4 + 45 * q) - 1131 / 100\<bar> < 5 / 1000"
    using up lo by linarith
  then have "\<bar>degrees (arctan (1 / 5)) - 11.31\<bar> < 0.005"
    unfolding d by simp
  moreover have "(40 / 200 :: real) = 1 / 5" by simp
  ultimately show ?thesis by simp
qed

subsection \<open>Auxiliary facts about placements and the resolver\<close>

lemma compute_clothing:
  assumes "left_shoulder lms = Some ls" and "right_shoulder lms = Some rs"
  shows "\<exists>d. pose_entry lms = Some d \<and>
           left_of (get_sides (shoulders (get_pose_features d))) = Some ls \<and>
           right_of (get_sides (shoulders (get_pose_features d))) = Some rs \<and>
           left_hip lms = left_of (get_sides (hips (get_pose_features d))) \<and>
           right_hip lms = right_of (get_sides (hips (get_pose_features d))) \<and>
           (\<exists>p. get_clothing_placement h w d = Some p \<and>
                compute_placement CLOTHING h w lms = Inr p)"
  using assms
  by (auto simp: left_shoulder_def right_shoulder_def left_hip_def right_hip_def
      compute_placement_def or_default_def get_clothing_placement_def Let_def
      split: option.splits)

lemma compute_placement_raises:
  assumes "compute_placement c h w lms = Inl e"
  shows "(c = GLASSES \<and> e = TypeError \<and>
          (left_eye_center_entry lms = Some None \<or> right_eye_center_entry lms = Some None)) \<or>
         (c = WATCHES \<and> e = KeyError \<and>
          (\<exists>lw. left_wrist lms = Some lw \<and> lm_visibility lw = None))"
  using assms
  by (cases c)
     (auto simp: compute_placement_def get_glasses_placement_def get_watch_placement_def
        left_eye_center_entry_def right_eye_center_entry_def left_wrist_def Let_def
        split: option.splits if_splits sum.splits)

lemma get_accessory_image_cache:
  "accessory_cache (snd (get_accessory_image lib w acc)) = accessory_cache w"
  by (auto simp: get_accessory_image_def ensure_alpha_def alloc_def Let_def
      split: accessory.splits option.splits prod.splits)

subsection \<open>Bounds of the blended region\<close>

text \<open>
  Claim C1. Let \<open>ra\<close> be the resized (and rotated) accessory and \<open>raw\<close> the top-left corner
  computed from the placement. When \<open>raw\<close> would put the accessory outside the base on
  either axis, the offset on each axis is \<open>max 0 (min (base - accessory) raw)\<close>: it lies in
  \<open>[0, base - accessory]\<close> when the accessory fits on that axis and is 0 when the accessory
  is larger than the base. In every case the region of interest lies within
  \<open>[0, width) \<times> [0, height)\<close> of the base, the result has the shape of the base, and every
  element that differs from the base lies inside that region, in channels 0 to 2.
\<close>

theorem place_accessory_bounds:
  assumes "resized_accessory lib accessory_image width height rotation = Inr ra"
    and "raw = raw_offsets x y width height"
    and "off = place_offsets result ra raw"
    and "roi = roi_size result ra off"
  shows "(out_of_bounds result ra raw \<longrightarrow>
            fst off = max 0 (min (int (sh1 result) - int (sh1 ra)) (fst raw)) \<and>
            snd off = max 0 (min (int (sh0 result) - int (sh0 ra)) (snd raw)) \<and>
            (sh1 ra \<le> sh1 result \<longrightarrow> 0 \<le> fst off \<and> fst off \<le> int (sh1 result) - int (sh1 ra)) \<and>
            (sh1 result < sh1 ra \<longrightarrow> fst off = 0) \<and>
            (sh0 ra \<le> sh0 result \<longrightarrow> 0 \<le> snd off \<and> snd off \<le> int (sh0 result) - int (sh0 ra)) \<and>
            (sh0 result < sh0 ra \<longrightarrow> snd off = 0)) \<and>
         0 \<le> fst off \<and> 0 \<le> fst roi \<and> fst off + fst roi \<le> int (sh1 result) \<and>
         0 \<le> snd off \<and> 0 \<le> snd roi \<and> snd off + snd roi \<le> int (sh0 result) \<and>
         (\<forall>res. place_body lib result accessory_image x y width height rotation = Inr res \<longrightarrow>
            sh0 res = sh0 result \<and> sh1 res = sh1 result \<and> sh2 res = sh2 result \<and>
            (\<forall>i j c. elem res i j c \<noteq> elem result i j c \<longrightarrow>
               snd off \<le> int i \<and> int i < snd off + snd roi \<and> i < sh0 result \<and>
               fst off \<le> int j \<and> int j < fst off + fst roi \<and> j < sh1 result \<and> c < 3))"
proof -
  have clamp: "out_of_bounds result ra raw \<longrightarrow>
            fst off = max 0 (min (int (sh1 result) - int (sh1 ra)) (fst raw)) \<and>
            snd off = max 0 (min (int (sh0 result) - int (sh0 ra)) (snd raw)) \<and>
            (sh1 ra \<le> sh1 result \<longrightarrow> 0 \<le> fst off \<and> fst off \<le> int (sh1 result) - int (sh1 ra)) \<and>
            (sh1 result < sh1 ra \<longrightarrow> fst off = 0) \<and>
            (sh0 ra \<le> sh0 result \<longrightarrow> 0 \<le> snd off \<and> snd off \<le> int (sh0 result) - int (sh0 ra)) \<and>
            (sh0 result < sh0 ra \<longrightarrow> snd off = 0)"
    unfolding assms(3) place_offsets_def by auto
  have nn: "0 \<le> fst off" "0 \<le> snd off"
    using place_offsets_nonneg [of result ra raw] assms(3) by simp_all
  note rb = roi_size_bounds [OF assms(3), folded assms(4)]
  have writes: "sh0 res = sh0 result \<and> sh1 res = sh1 result \<and> sh2 res = sh2 result \<and>
            (\<forall>i j c. elem res i j c \<noteq> elem result i j c \<longrightarrow>
               snd off \<le> int i \<and> int i < snd off + snd roi \<and> i < sh0 result \<and>
               fst off \<le> int j \<and> int j < fst off + fst roi \<and> j < sh1 result \<and> c < 3)"
    if "place_body lib result accessory_image x y width height rotation = Inr res" for res
  proof -
    from that have b: "blend_roi result ra raw = Inr res"
      using place_body_blend [OF assms(1)] assms(2) by simp
    have inside: "snd off \<le> int i \<and> int i < snd off + snd roi \<and> i < sh0 result \<and>
               fst off \<le> int j \<and> int j < fst off + fst roi \<and> j < sh1 result \<and> c < 3"
      if "elem res i j c \<noteq> elem result i j c" for i j c
    proof -
      from that blend_roi_elem [OF b assms(3) assms(4)]
      have "nat (snd off) \<le> i \<and> i < nat (snd off) + nat (snd roi) \<and>
         nat (fst off) \<le> j \<and> j < nat (fst off) + nat (fst roi) \<and> c < 3"
        by (metis (no_types, lifting))
      with nn rb show ?thesis by linarith
    qed
    with blend_roi_shape [OF b] show ?thesis by blast
  qed
  from clamp nn rb writes show ?thesis by blast
qed

theorem place_accessory_bounds_witness:
  "\<exists>ra res. resized_accessory demo_lib demo_accessory 2 2 0 = Inr ra \<and>
      out_of_bounds demo_base ra (raw_offsets 4 4 2 2) \<and>
      raw_offsets 4 4 2 2 = (3, 3) \<and>
      place_offsets demo_base ra (raw_offsets 4 4 2 2) = (2, 2) \<and>
      roi_size demo_base ra (2, 2) = (2, 2) \<and>
      place_body demo_lib demo_base demo_accessory 4 4 2 2 0 = Inr res \<and>
      sh0 res = 4 \<and> sh1 res = 4 \<and>
      elem res 3 3 0 \<noteq> elem demo_base 3 3 0 \<and>
      (2::int) \<le> 3 \<and> (3::int) < 2 + 2 \<and> (3::nat) < sh0 demo_base"
proof -
  define ra where "ra = \<lparr>sh0 = 2, sh1 = 2, sh2 = sh2 demo_accessory,
          elem = (\<lambda>i j c. elem demo_accessory (i * sh0 demo_accessory div 2)
                    (j * sh1 demo_accessory div 2) c)\<rparr>"
  have r: "resized_accessory demo_lib demo_accessory 2 2 0 = Inr ra"
    unfolding ra_def by (rule demo_resize)
  have raw: "raw_offsets 4 4 2 2 = (3, 3)"
    by (simp add: raw_offsets_def py_int_def floordiv2_def)
  have oob: "out_of_bounds demo_base ra (raw_offsets 4 4 2 2)"
    unfolding raw by (simp add: out_of_bounds_def ra_def demo_base_def)
  have off: "place_offsets demo_base ra (raw_offsets 4 4 2 2) = (2, 2)"
    unfolding raw by (simp add: place_offsets_def out_of_bounds_def ra_def demo_base_def)
  have roi: "roi_size demo_base ra (2, 2) = (2, 2)"
    by (simp add: roi_size_def ra_def demo_base_def)
  have "4 \<le> sh2 ra" and "3 \<le> sh2 demo_base"
    by (simp_all add: ra_def demo_accessory_def demo_base_def)
  then obtain res where b: "blend_roi demo_base ra (raw_offsets 4 4 2 2) = Inr res"
    using blend_roi_succeeds by blast
  then have res: "place_body demo_lib demo_base demo_accessory 4 4 2 2 0 = Inr res"
    by (simp only: place_body_blend [OF r])
  have changed: "elem res 3 3 0 \<noteq> elem demo_base 3 3 0"
    using blend_roi_elem [OF b refl refl, of 3 3 0]
    unfolding off roi
    by (simp add: ra_def demo_accessory_def demo_base_def blend_channel_opaque)
  from place_accessory_bounds [OF r refl refl refl, of demo_base 4 4] oob res changed
  have "sh0 res = sh0 demo_base \<and> sh1 res = sh1 demo_base \<and>
        snd (place_offsets demo_base ra (raw_offsets 4 4 2 2)) \<le> int 3 \<and>
        int 3 < snd (place_offsets demo_base ra (raw_offsets 4 4 2 2))
                  + snd (roi_size demo_base ra (place_offsets demo_base ra (raw_offsets 4 4 2 2))) \<and>
        (3::nat) < sh0 demo_base"
    by blast
  with r oob raw off roi res changed show ?thesis
    by (intro exI [of _ ra] exI [of _ res]) (simp add: demo_base_def)
qed

subsection \<open>The alpha blend at its extremes\<close>

lemma place_body_extremes:
  assumes "resized_accessory lib accessory_image width height rotation = Inr ra"
    and "off = place_offsets base ra (raw_offsets x y width height)"
    and "roi = roi_size base ra off"
    and "place_body lib base accessory_image x y width height rotation = Inr res"
  shows "((\<forall>i j. i < sh0 ra \<longrightarrow> j < sh1 ra \<longrightarrow> elem ra i j 3 = 0) \<longrightarrow> res = base) \<and>
         ((\<forall>i j. i < sh0 ra \<longrightarrow> j < sh1 ra \<longrightarrow> elem ra i j 3 = 255) \<longrightarrow>
          (\<forall>i j c. int i < snd roi \<longrightarrow> int j < fst roi \<longrightarrow> c < 3 \<longrightarrow>
             elem res (nat (snd off) + i) (nat (fst off) + j) c = elem ra i j c)) \<and>
         (\<forall>i j c. int i < snd roi \<longrightarrow> int j < fst roi \<longrightarrow> c < 3 \<longrightarrow>
            elem res (nat (snd off) + i) (nat (fst off) + j) c =
              blend_channel (elem ra i j 3)
                (elem base (nat (snd off) + i) (nat (fst off) + j) c) (elem ra i j c))"
proof -
  from assms(4) have b: "blend_roi base ra (raw_offsets x y width height) = Inr res"
    using place_body_blend [OF assms(1)] by simp
  note el = blend_roi_elem [OF b assms(2) assms(3)]
  note rb = roi_size_bounds [OF assms(2), folded assms(3)]
  have transparent: "(\<forall>i j. i < sh0 ra \<longrightarrow> j < sh1 ra \<longrightarrow> elem ra i j 3 = 0) \<longrightarrow> res = base"
  proof
    assume a0: "\<forall>i j. i < sh0 ra \<longrightarrow> j < sh1 ra \<longrightarrow> elem ra i j 3 = 0"
    have "elem res i j c = elem base i j c" for i j c
    proof (cases "nat (snd off) \<le> i \<and> i < nat (snd off) + nat (snd roi) \<and>
         nat (fst off) \<le> j \<and> j < nat (fst off) + nat (fst roi) \<and> c < 3")
      case True
      then have "i - nat (snd off) < sh0 ra" "j - nat (fst off) < sh1 ra"
        using rb by linarith+
      with a0 have "elem ra (i - nat (snd off)) (j - nat (fst off)) 3 = 0" by blast
      with True show ?thesis by (simp add: el blend_channel_transparent)
    next
      case False
      then show ?thesis unfolding el by (simp only: if_False)
    qed
    then show "res = base"
      using place_body_unchanged [OF assms(4)] by blast
  qed
  have formula: "elem res (nat (snd off) + i) (nat (fst off) + j) c =
      blend_channel (elem ra i j 3) (elem base (nat (snd off) + i) (nat (fst off) + j) c)
        (elem ra i j c)"
    if "int i < snd roi" "int j < fst roi" "c < 3" for i j c
  proof -
    from that have "i < nat (snd roi)" "j < nat (fst roi)" by linarith+
    with that(3) show ?thesis by (simp add: el)
  qed
  have opaque: "(\<forall>i j. i < sh0 ra \<longrightarrow> j < sh1 ra \<longrightarrow> elem ra i j 3 = 255) \<longrightarrow>
         (\<forall>i j c. int i < snd roi \<longrightarrow> int j < fst roi \<longrightarrow> c < 3 \<longrightarrow>
            elem res (nat (snd off) + i) (nat (fst off) + j) c = elem ra i j c)"
  proof (intro impI allI)
    fix i j c :: nat
    assume a1: "\<forall>i j. i < sh0 ra \<longrightarrow> j < sh1 ra \<longrightarrow> elem ra i j 3 = 255"
      and h: "int i < snd roi" "int j < fst roi" "c < 3"
    from h rb have "i < sh0 ra" "j < sh1 ra" by linarith+
    with a1 have "elem ra i j 3 = 255" by blast
    with formula [OF h] show "elem res (nat (snd off) + i) (nat (fst off) + j) c = elem ra i j c"
      by (simp add: blend_channel_opaque)
  qed
  from transparent opaque formula show ?thesis by blast
qed




subsection \<open>What \<open>_place_accessory\<close> leaves alone\<close>

lemma place_body_confined:
  assumes "place_body lib result accessory_image x y width height rotation = Inr res"
  shows "\<exists>ra. resized_accessory lib accessory_image width height rotation = Inr ra \<and>
     (\<forall>i j c. elem res i j c \<noteq> elem result i j c \<longrightarrow>
        c < 3 \<and>
        snd (place_offsets result ra (raw_offsets x y width height)) \<le> int i \<and>
        int i < snd (place_offsets result ra (raw_offsets x y width height))
                  + snd (roi_size result ra
                           (place_offsets result ra (raw_offsets x y width height))) \<and>
        fst (place_offsets result ra (raw_offsets x y width height)) \<le> int j \<and>
        int j < fst (place_offsets result ra (raw_offsets x y width height))
                  + fst (roi_size result ra
                           (place_offsets result ra (raw_offsets x y width height))))"
proof -
  from place_body_elem [OF assms] obtain ra where
    r: "resized_accessory lib accessory_image width height rotation = Inr ra"
    and b: "blend_roi result ra (raw_offsets x y width height) = Inr res"
    by blast
  define off where "off = place_offsets result ra (raw_offsets x y width height)"
  define roi where "roi = roi_size result ra off"
  have nn: "0 \<le> fst off" "0 \<le> snd off"
    using place_offsets_nonneg [of result ra "raw_offsets x y width height"]
    by (simp_all add: off_def)
  note rb = roi_size_bounds [OF off_def, folded roi_def]
  have "c < 3 \<and> snd off \<le> int i \<and> int i < snd off + snd roi \<and>
        fst off \<le> int j \<and> int j < fst off + fst roi"
    if "elem res i j c \<noteq> elem result i j c" for i j c
  proof -
    from that blend_roi_elem [OF b off_def roi_def]
    have "nat (snd off) \<le> i \<and> i < nat (snd off) + nat (snd roi) \<and>
         nat (fst off) \<le> j \<and> j < nat (fst off) + nat (fst roi) \<and> c < 3"
      by (metis (no_types, lifting))
    with nn rb show ?thesis by linarith
  qed
  with r show ?thesis unfolding roi_def off_def by blast
qed

text \<open>
  Claim C9, as the code has it. A call of \<open>_place_accessory\<close> on arrays that exist changes
  no array that existed before it, so neither the caller's base nor the accessory. When
  the base or the accessory is \<open>None\<close> the state is unchanged and the value returned is the
  base argument itself. Otherwise the image returned has the shape of the base and the
  base's channels from index 3 on, so the alpha channel is the base's, and it differs from
  the base only in channels 0 to 2 of pixels inside the region of interest. It is a newly
  allocated array when resizing, rotation and blending succeed, and the caller's base
  itself when one of them raises.
\<close>

theorem place_accessory_frame:
  assumes "\<forall>b. base_image = Some b \<longrightarrow> b < nxt w"
    and "\<forall>a. accessory_image = Some a \<longrightarrow> a < nxt w"
    and "place_accessory lib w base_image accessory_image x y width height rotation = (w', r)"
  shows "(\<forall>k. k < nxt w \<longrightarrow> objs w' k = objs w k) \<and>
     (base_image = None \<or> accessory_image = None \<longrightarrow> w' = w \<and> r = base_image) \<and>
     (\<forall>b a. base_image = Some b \<and> accessory_image = Some a \<longrightarrow>
        ((\<exists>img. place_body lib (objs w b) (objs w a) x y width height rotation = Inr img)
           \<longrightarrow> r = Some (nxt w) \<and> nxt w < nxt w') \<and>
        ((\<exists>e. place_body lib (objs w b) (objs w a) x y width height rotation = Inl e)
           \<longrightarrow> r = Some b) \<and>
        (\<exists>n. r = Some n \<and>
           sh0 (objs w' n) = sh0 (objs w b) \<and> sh1 (objs w' n) = sh1 (objs w b) \<and>
           sh2 (objs w' n) = sh2 (objs w b) \<and>
           (\<forall>i j c. 3 \<le> c \<longrightarrow> elem (objs w' n) i j c = elem (objs w b) i j c) \<and>
           (\<forall>i j c. elem (objs w' n) i j c \<noteq> elem (objs w b) i j c \<longrightarrow>
              c < 3 \<and>
              (\<exists>ra. resized_accessory lib (objs w a) width height rotation = Inr ra \<and>
                 snd (place_offsets (objs w b) ra (raw_offsets x y width height)) \<le> int i \<and>
                 int i < snd (place_offsets (objs w b) ra (raw_offsets x y width height))
                           + snd (roi_size (objs w b) ra
                                    (place_offsets (objs w b) ra
                                       (raw_offsets x y width height))) \<and>
                 fst (place_offsets (objs w b) ra (raw_offsets x y width height)) \<le> int j \<and>
                 int j < fst (place_offsets (objs w b) ra (raw_offsets x y width height))
                           + fst (roi_size (objs w b) ra
                                    (place_offsets (objs w b) ra
                                       (raw_offsets x y width height)))))))"
    (is "?old \<and> ?none \<and> (\<forall>b a. ?pre b a \<longrightarrow> ?body b a)")
proof (cases "base_image = None \<or> accessory_image = None")
  case True
  then have "accessory_image = None \<or> base_image = None" by blast
  from place_accessory_none [OF this, of lib w x y width height rotation] assms(3)
  have "w' = w" and "r = base_image"
    by simp_all
  with True show ?thesis by auto
next
  case False
  then obtain b a where ba: "base_image = Some b" "accessory_image = Some a"
    by auto
  with assms(1,2) have v: "b < nxt w" "a < nxt w" by simp_all
  note eq = assms(3) [unfolded ba place_accessory_some [OF v]]
  show ?thesis
  proof (cases "place_body lib (objs w b) (objs w a) x y width height rotation")
    case (Inl e)
    with eq have w': "w' = w\<lparr>objs := (objs w)(nxt w := objs w b), nxt := Suc (nxt w)\<rparr>"
      and r: "r = Some b"
      by simp_all
    have old: "\<forall>k. k < nxt w \<longrightarrow> objs w' k = objs w k"
      by (simp add: w')
    with v(1) have same: "objs w' b = objs w b" by blast
    have "?body b a"
      using r same Inl by simp
    then have "?body b' a'" if "?pre b' a'" for b' a'
      using that ba by simp
    with old False show ?thesis by blast
  next
    case (Inr img)
    with eq have w': "w' = w\<lparr>objs := (objs w)(nxt w := img), nxt := Suc (nxt w)\<rparr>"
      and r: "r = Some (nxt w)"
      by simp_all
    have old: "\<forall>k. k < nxt w \<longrightarrow> objs w' k = objs w k"
      by (simp add: w')
    have new: "objs w' (nxt w) = img" and nx: "nxt w < nxt w'"
      by (simp_all add: w')
    note fr = place_body_frame [OF Inr]
    from place_body_confined [OF Inr] obtain ra where
      ra: "resized_accessory lib (objs w a) width height rotation = Inr ra"
      and conf: "\<forall>i j c. elem img i j c \<noteq> elem (objs w b) i j c \<longrightarrow>
        c < 3 \<and>
        snd (place_offsets (objs w b) ra (raw_offsets x y width height)) \<le> int i \<and>
        int i < snd (place_offsets (objs w b) ra (raw_offsets x y width height))
                  + snd (roi_size (objs w b) ra
                           (place_offsets (objs w b) ra (raw_offsets x y width height))) \<and>
        fst (place_offsets (objs w b) ra (raw_offsets x y width height)) \<le> int j \<and>
        int j < fst (place_offsets (objs w b) ra (raw_offsets x y width height))
                  + fst (roi_size (objs w b) ra
                           (place_offsets (objs w b) ra (raw_offsets x y width height)))"
      by blast
    have third: "\<exists>n. r = Some n \<and>
           sh0 (objs w' n) = sh0 (objs w b) \<and> sh1 (objs w' n) = sh1 (objs w b) \<and>
           sh2 (objs w' n) = sh2 (objs w b) \<and>
           (\<forall>i j c. 3 \<le> c \<longrightarrow> elem (objs w' n) i j c = elem (objs w b) i j c) \<and>
           (\<forall>i j c. elem (objs w' n) i j c \<noteq> elem (objs w b) i j c \<longrightarrow>
              c < 3 \<and>
              (\<exists>ra. resized_accessory lib (objs w a) width height rotation = Inr ra \<and>
                 snd (place_offsets (objs w b) ra (raw_offsets x y width height)) \<le> int i \<and>
                 int i < snd (place_offsets (objs w b) ra (raw_offsets x y width height))
                           + snd (roi_size (objs w b) ra
                                    (place_offsets (objs w b) ra
                                       (raw_offsets x y width height))) \<and>
                 fst (place_offsets (objs w b) ra (raw_offsets x y width height)) \<le> int j \<and>
                 int j < fst (place_offsets (objs w b) ra (raw_offsets x y width height))
                           + fst (roi_size (objs w b) ra
                                    (place_offsets (objs w b) ra
                                       (raw_offsets x y width height)))))"
      using fr ra conf by (intro exI [of _ "nxt w"], unfold new r) blast
    have "(\<exists>img. place_body lib (objs w b) (objs w a) x y width height rotation = Inr img)
           \<longrightarrow> r = Some (nxt w) \<and> nxt w < nxt w'"
      using r nx by simp
    moreover have "(\<exists>e. place_body lib (objs w b) (objs w a) x y width height rotation = Inl e)
           \<longrightarrow> r = Some b"
      using Inr by simp
    ultimately have main: "?body b a"
      using third by (intro conjI)
    have "?body b' a'" if "?pre b' a'" for b' a'
    proof -
      from that ba have e: "b' = b" "a' = a" by simp_all
      show ?thesis unfolding e by (rule main)
    qed
    with old False show ?thesis by blast
  qed
qed

theorem place_accessory_frame_witness:
  "0 < nxt demo_world \<and> 1 < nxt demo_world \<and>
   (\<exists>w' img. place_accessory demo_lib demo_world (Some 0) (Some 1) 2 2 2 2 0 = (w', Some 2) \<and>
      place_body demo_lib (objs demo_world 0) (objs demo_world 1) 2 2 2 2 0 = Inr img \<and>
      objs w' 0 = demo_base \<and> objs w' 1 = demo_accessory \<and>
      elem (objs w' 2) 1 1 3 = elem demo_base 1 1 3 \<and> sh0 (objs w' 2) = 4 \<and>
      elem (objs w' 2) 1 1 0 \<noteq> elem (objs demo_world 0) 1 1 0) \<and>
   (\<exists>w'. place_accessory demo_lib demo_world (Some 0) (Some 1) 2 2 0 0 0 = (w', Some 0) \<and>
      place_body demo_lib (objs demo_world 0) (objs demo_world 1) 2 2 0 0 0 = Inl CvError \<and>
      objs w' 0 = demo_base \<and> objs w' 1 = demo_accessory) \<and>
   place_accessory demo_lib demo_world (Some 0) None 2 2 2 2 0 = (demo_world, Some 0) \<and>
   place_accessory demo_lib demo_world None (Some 1) 2 2 2 2 0 = (demo_world, None)"
proof -
  have n: "0 < nxt demo_world" "1 < nxt demo_world" "nxt demo_world = 2"
    and o: "objs demo_world 0 = demo_base" "objs demo_world 1 = demo_accessory"
    by (simp_all add: demo_world_def)
  have v: "\<forall>b. Some (0::nat) = Some b \<longrightarrow> b < nxt demo_world"
    "\<forall>a. Some (1::nat) = Some a \<longrightarrow> a < nxt demo_world"
    "\<forall>a. (None :: nat option) = Some a \<longrightarrow> a < nxt demo_world"
    using n by simp_all
  have ro: "resized_accessory demo_lib demo_accessory 2 2 0 = Inr demo_accessory"
    unfolding demo_resize by (simp add: demo_accessory_def)
  have "4 \<le> sh2 demo_accessory" and "3 \<le> sh2 demo_base"
    by (simp_all add: demo_accessory_def demo_base_def)
  from place_body_succeeds [OF ro this] obtain img where
    ok: "place_body demo_lib (objs demo_world 0) (objs demo_world 1) 2 2 2 2 0 = Inr img"
    unfolding o by blast
  have bad: "place_body demo_lib (objs demo_world 0) (objs demo_world 1) 2 2 0 0 0 = Inl CvError"
    by (simp add: place_body_def resized_accessory_def demo_lib_def py_int_def)
  obtain w1 r1 where c1:
    "place_accessory demo_lib demo_world (Some 0) (Some 1) 2 2 2 2 0 = (w1, r1)"
    by (cases "place_accessory demo_lib demo_world (Some 0) (Some 1) 2 2 2 2 0")
  obtain w2 r2 where c2:
    "place_accessory demo_lib demo_world (Some 0) (Some 1) 2 2 0 0 0 = (w2, r2)"
    by (cases "place_accessory demo_lib demo_world (Some 0) (Some 1) 2 2 0 0 0")
  obtain w3 r3 where c3:
    "place_accessory demo_lib demo_world (Some 0) None 2 2 2 2 0 = (w3, r3)"
    by (cases "place_accessory demo_lib demo_world (Some 0) None 2 2 2 2 0")
  obtain w4 r4 where c4:
    "place_accessory demo_lib demo_world None (Some 1) 2 2 2 2 0 = (w4, r4)"
    by (cases "place_accessory demo_lib demo_world None (Some 1) 2 2 2 2 0")
  note t1 = place_accessory_frame [OF v(1) v(2) c1]
  note t2 = place_accessory_frame [OF v(1) v(2) c2]
  note t3 = place_accessory_frame [OF v(1) v(3) c3]
  note t4 = place_accessory_frame [OF v(3) v(2) c4]
  from t1 have old1: "\<forall>k. k < nxt demo_world \<longrightarrow> objs w1 k = objs demo_world k"
    by (rule conjunct1)
  note u1 = t1 [THEN conjunct2, THEN conjunct2, rule_format, of 0 1, OF conjI [OF refl refl]]
  from u1 [THEN conjunct1] ok have r1: "r1 = Some 2"
    unfolding n(3) by blast
  from u1 [THEN conjunct2, THEN conjunct2] obtain m where
    m: "r1 = Some m" "sh0 (objs w1 m) = sh0 (objs demo_world 0)"
    "\<forall>i j c. 3 \<le> c \<longrightarrow> elem (objs w1 m) i j c = elem (objs demo_world 0) i j c"
    by (elim exE conjE)
  from m r1 have a1: "sh0 (objs w1 2) = 4" "elem (objs w1 2) 1 1 3 = elem demo_base 1 1 3"
    unfolding o by (simp_all add: demo_base_def)
  from old1 n o have k1: "objs w1 0 = demo_base" "objs w1 1 = demo_accessory"
    by auto
  have w1: "w1 = demo_world\<lparr>objs := (objs demo_world)(nxt demo_world := img),
                             nxt := Suc (nxt demo_world)\<rparr>"
    using c1 unfolding place_accessory_some [OF n(1) n(2)] ok by simp
  have off: "place_offsets demo_base demo_accessory (raw_offsets 2 2 2 2) = (1, 1)"
    by (simp add: raw_offsets_def py_int_def floordiv2_def place_offsets_def out_of_bounds_def
        demo_accessory_def demo_base_def)
  have roi: "roi_size demo_base demo_accessory (1, 1) = (2, 2)"
    by (simp add: roi_size_def demo_accessory_def demo_base_def)
  have ao: "\<forall>i j. i < sh0 demo_accessory \<longrightarrow> j < sh1 demo_accessory \<longrightarrow>
              elem demo_accessory i j 3 = 255"
    by (simp add: demo_accessory_def)
  from place_body_extremes [OF ro refl refl ok [unfolded o], THEN conjunct2, THEN conjunct1,
      rule_format, OF ao [rule_format], of 0 0 0]
  have "elem img 1 1 0 = 200"
    unfolding off roi by (simp add: demo_accessory_def)
  then have ch1: "elem (objs w1 2) 1 1 0 \<noteq> elem (objs demo_world 0) 1 1 0"
    unfolding w1 o n(3) by (simp add: demo_base_def)
  from t2 have old2: "\<forall>k. k < nxt demo_world \<longrightarrow> objs w2 k = objs demo_world k"
    by (rule conjunct1)
  note u2 = t2 [THEN conjunct2, THEN conjunct2, rule_format, of 0 1, OF conjI [OF refl refl]]
  from u2 [THEN conjunct2, THEN conjunct1] bad have r2: "r2 = Some 0" by blast
  from old2 n o have k2: "objs w2 0 = demo_base" "objs w2 1 = demo_accessory"
    by auto
  from t3 [THEN conjunct2, THEN conjunct1] have r3: "w3 = demo_world \<and> r3 = Some 0" by simp
  from t4 [THEN conjunct2, THEN conjunct1] have r4: "w4 = demo_world \<and> r4 = None" by simp
  have first: "\<exists>w' img. place_accessory demo_lib demo_world (Some 0) (Some 1) 2 2 2 2 0
        = (w', Some 2) \<and>
      place_body demo_lib (objs demo_world 0) (objs demo_world 1) 2 2 2 2 0 = Inr img \<and>
      objs w' 0 = demo_base \<and> objs w' 1 = demo_accessory \<and>
      elem (objs w' 2) 1 1 3 = elem demo_base 1 1 3 \<and> sh0 (objs w' 2) = 4 \<and>
      elem (objs w' 2) 1 1 0 \<noteq> elem (objs demo_world 0) 1 1 0"
    using c1 r1 ok k1 a1 ch1 by (intro exI [of _ w1] exI [of _ img]) simp
  have second: "\<exists>w'. place_accessory demo_lib demo_world (Some 0) (Some 1) 2 2 0 0 0
        = (w', Some 0) \<and>
      place_body demo_lib (objs demo_world 0) (objs demo_world 1) 2 2 0 0 0 = Inl CvError \<and>
      objs w' 0 = demo_base \<and> objs w' 1 = demo_accessory"
    using c2 r2 bad k2 by (intro exI [of _ w2]) simp
  from c3 r3 have third: "place_accessory demo_lib demo_world (Some 0) None 2 2 2 2 0
      = (demo_world, Some 0)" by simp
  from c4 r4 have fourth: "place_accessory demo_lib demo_world None (Some 1) 2 2 2 2 0
      = (demo_world, None)" by simp
  from n(1,2) first second third fourth show ?thesis by (intro conjI)
qed

text \<open>
  The claim as stated, that every call returns a new image, fails: with no accessory, and
  with a target size that \<open>cv2.resize\<close> rejects, the call returns the caller's own base
  (address 0).
\<close>

theorem place_accessory_returns_base:
  "snd (place_accessory demo_lib demo_world (Some 0) None 1 1 2 2 0) = Some 0 \<and>
   snd (place_accessory demo_lib demo_world (Some 0) (Some 1) 1 1 0 0 0) = Some 0 \<and>
   0 < nxt demo_world"
  by (simp add: place_accessory_def alloc_def place_body_def resized_accessory_def
      demo_lib_def demo_world_def py_int_def)

subsection \<open>The guards of \<open>apply_accessory\<close>\<close>

text \<open>
  Claim C10. When the avatar image is \<open>None\<close>, or the accessory is \<open>None\<close>,
  \<open>apply_accessory\<close> raises \<open>ValueError\<close> and the state is the one it was called in: no
  array has been allocated (no placeholder, no copy of the avatar), no file has been
  decoded, no placement has been computed.
\<close>

theorem apply_accessory_none_raises:
  "(avatar_image = None \<longrightarrow>
      apply_accessory lib w avatar_image acc category landmarks
        = (Inl (ValueError ''Avatar image is required''), w)) \<and>
   (avatar_image \<noteq> None \<and> acc = None \<longrightarrow>
      apply_accessory lib w avatar_image acc category landmarks
        = (Inl (ValueError ''Accessory data is required''), w))"
  by (auto simp: apply_accessory_def)

theorem apply_accessory_none_raises_witness:
  "apply_accessory demo_lib demo_world None (Some AccOther) ''hats'' None
     = (Inl (ValueError ''Avatar image is required''), demo_world) \<and>
   apply_accessory demo_lib demo_world (Some 0) None ''hats'' None
     = (Inl (ValueError ''Accessory data is required''), demo_world)"
  using apply_accessory_none_raises [of None demo_lib demo_world "Some AccOther" "''hats''" None]
        apply_accessory_none_raises [of "Some 0" demo_lib demo_world None "''hats''" None]
  by simp

subsection \<open>Clothing placement\<close>

text \<open>
  Claim C4, as the code computes it. For a landmark set with both shoulder points and both
  hip points, the height of the clothing placement is the larger of the distance from the
  shoulder centre to the hip centre, \<open>hip_center_y - shoulder_center_y\<close>, and 30% of the
  image height: line 359 moves \<open>center_y\<close> to the middle of the torso before line 371
  doubles its distance to the hips. When a hip is absent and both shoulders are present,
  the height is 50% of the image height.
\<close>

theorem clothing_height:
  assumes "left_shoulder lms = Some ls" and "right_shoulder lms = Some rs"
  shows "\<exists>p. compute_placement CLOTHING h w lms = Inr p \<and>
     (\<forall>lh rh. left_hip lms = Some lh \<and> right_hip lms = Some rh \<longrightarrow>
        pl_height p = max ((lm_y lh + lm_y rh) / 2 - (lm_y ls + lm_y rs) / 2) (real h * 0.3)) \<and>
     (left_hip lms = None \<or> right_hip lms = None \<longrightarrow> pl_height p = real h * 0.5)"
proof -
  from compute_clothing [OF assms, of h w] obtain d p where
    d: "left_of (get_sides (shoulders (get_pose_features d))) = Some ls"
       "right_of (get_sides (shoulders (get_pose_features d))) = Some rs"
       "left_hip lms = left_of (get_sides (hips (get_pose_features d)))"
       "right_hip lms = right_of (get_sides (hips (get_pose_features d)))"
    and p: "get_clothing_placement h w d = Some p" "compute_placement CLOTHING h w lms = Inr p"
    by blast
  have "pl_height p = max ((lm_y lh + lm_y rh) / 2 - (lm_y ls + lm_y rs) / 2) (real h * 0.3)"
    if "left_hip lms = Some lh \<and> right_hip lms = Some rh" for lh rh
  proof -
    have "((lm_y lh + lm_y rh) / 2 - ((lm_y ls + lm_y rs) / 2 + (lm_y lh + lm_y rh) / 2) / 2) * 2
          = (lm_y lh + lm_y rh) / 2 - (lm_y ls + lm_y rs) / 2"
      by (simp add: field_simps)
    with that p(1) d show ?thesis
      by (auto simp: get_clothing_placement_def Let_def)
  qed
  moreover have "pl_height p = real h * 0.5" if "left_hip lms = None \<or> right_hip lms = None"
    using that p(1) d by (auto simp: get_clothing_placement_def Let_def split: option.splits)
  ultimately show ?thesis using p(2) by (intro exI [of _ p]) simp
qed

theorem clothing_height_witness:
  "left_shoulder (Some shoulders_level) = Some (Landmark 100 200 0 (Some 0.9)) \<and>
   right_shoulder (Some shoulders_level) = Some (Landmark 300 200 0 (Some 0.9)) \<and>
   left_hip (Some shoulders_level) = Some (Landmark 120 400 0 (Some 0.9)) \<and>
   right_hip (Some shoulders_level) = Some (Landmark 280 400 0 (Some 0.9)) \<and>
   (\<exists>p. compute_placement CLOTHING 500 400 (Some shoulders_level) = Inr p \<and>
        pl_height p = 200) \<and>
   left_shoulder (Some shoulders_tilted) = Some (Landmark 100 180 0 (Some 0.9)) \<and>
   right_shoulder (Some shoulders_tilted) = Some (Landmark 300 220 0 (Some 0.9)) \<and>
   left_hip (Some shoulders_tilted) = None \<and>
   (\<exists>p. compute_placement CLOTHING 500 400 (Some shoulders_tilted) = Inr p \<and>
        pl_height p = 250)"
proof -
  have l: "left_shoulder (Some shoulders_level) = Some (Landmark 100 200 0 (Some 0.9))"
    "right_shoulder (Some shoulders_level) = Some (Landmark 300 200 0 (Some 0.9))"
    "left_hip (Some shoulders_level) = Some (Landmark 120 400 0 (Some 0.9))"
    "right_hip (Some shoulders_level) = Some (Landmark 280 400 0 (Some 0.9))"
    by (simp_all add: left_shoulder_def right_shoulder_def left_hip_def right_hip_def
        pose_entry_def shoulders_level_def get_pose_features_def get_sides_def)
  have t: "left_shoulder (Some shoulders_tilted) = Some (Landmark 100 180 0 (Some 0.9))"
    "right_shoulder (Some shoulders_tilted) = Some (Landmark 300 220 0 (Some 0.9))"
    "left_hip (Some shoulders_tilted) = None"
    by (simp_all add: left_shoulder_def right_shoulder_def left_hip_def
        pose_entry_def shoulders_tilted_def get_pose_features_def get_sides_def)
  from clothing_height [OF l(1) l(2), of 500 400] l(3) l(4)
  have a: "\<exists>p. compute_placement CLOTHING 500 400 (Some shoulders_level) = Inr p \<and>
        pl_height p = 200"
    by auto
  from clothing_height [OF t(1) t(2), of 500 400] t(3)
  have b: "\<exists>p. compute_placement CLOTHING 500 400 (Some shoulders_tilted) = Inr p \<and>
        pl_height p = 250"
    by auto
  from l t a b show ?thesis by simp
qed

text \<open>
  The claim as stated doubles the distance: for shoulders at height 200, hips at height 400
  and an image 500 high it gives \<open>max (2 * 200) 150 = 400\<close>, and the code gives 200.
\<close>

theorem clothing_height_not_doubled:
  "map_sum id pl_height (compute_placement CLOTHING 500 400 (Some shoulders_level)) = Inr 200 \<and>
   max (2 * ((400 + 400) / 2 - (200 + 200) / 2)) (0.3 * 500) = (400 :: real)"
  by (simp add: compute_placement_def or_default_def pose_entry_def shoulders_level_def
      get_clothing_placement_def get_pose_features_def get_sides_def Let_def)

text \<open>
  Claim C8. For a landmark set with both shoulder points the clothing placement is centred
  at the mean of the shoulders' \<open>x\<close>, and its rotation is \<open>arctan (dy / dx)\<close> in degrees for
  the differences \<open>dy\<close>, \<open>dx\<close> between the right and the left shoulder, and 0 when \<open>dx = 0\<close>.
  Shoulders at (100, 200) and (300, 200) give rotation 0 and centre 200; shoulders at
  (100, 180) and (300, 220) give \<open>arctan (40 / 200)\<close> in degrees, within 0.005 of 11.31.
\<close>

theorem clothing_rotation:
  assumes "left_shoulder lms = Some ls" and "right_shoulder lms = Some rs"
  shows "\<exists>p. compute_placement CLOTHING h w lms = Inr p \<and>
     pl_x p = (lm_x ls + lm_x rs) / 2 \<and>
     (lm_x rs - lm_x ls \<noteq> 0 \<longrightarrow>
        pl_rotation p = arctan ((lm_y rs - lm_y ls) / (lm_x rs - lm_x ls)) * 180 / pi) \<and>
     (lm_x rs - lm_x ls = 0 \<longrightarrow> pl_rotation p = 0) \<and>
     (lm_x ls = 100 \<and> lm_y ls = 200 \<and> lm_x rs = 300 \<and> lm_y rs = 200 \<longrightarrow>
        pl_rotation p = 0 \<and> pl_x p = 200) \<and>
     (lm_x ls = 100 \<and> lm_y ls = 180 \<and> lm_x rs = 300 \<and> lm_y rs = 220 \<longrightarrow>
        pl_rotation p = arctan (40 / 200) * 180 / pi \<and> \<bar>pl_rotation p - 11.31\<bar> < 0.005)"
proof -
  from compute_clothing [OF assms, of h w] obtain d p where
    d: "left_of (get_sides (shoulders (get_pose_features d))) = Some ls"
       "right_of (get_sides (shoulders (get_pose_features d))) = Some rs"
    and p: "get_clothing_placement h w d = Some p" "compute_placement CLOTHING h w lms = Inr p"
    by blast
  from p(1) d have x: "pl_x p = (lm_x ls + lm_x rs) / 2"
    and r: "pl_rotation p = rotation_of ls rs"
    by (auto simp: get_clothing_placement_def Let_def)
  have general: "lm_x rs - lm_x ls \<noteq> 0 \<longrightarrow>
        pl_rotation p = arctan ((lm_y rs - lm_y ls) / (lm_x rs - lm_x ls)) * 180 / pi"
    and vertical: "lm_x rs - lm_x ls = 0 \<longrightarrow> pl_rotation p = 0"
    unfolding r rotation_of_def Let_def degrees_def by simp_all
  have level: "lm_x ls = 100 \<and> lm_y ls = 200 \<and> lm_x rs = 300 \<and> lm_y rs = 200 \<longrightarrow>
        pl_rotation p = 0 \<and> pl_x p = 200"
    unfolding r x rotation_of_def Let_def degrees_def by simp
  have tilted: "lm_x ls = 100 \<and> lm_y ls = 180 \<and> lm_x rs = 300 \<and> lm_y rs = 220 \<longrightarrow>
        pl_rotation p = arctan (40 / 200) * 180 / pi \<and> \<bar>pl_rotation p - 11.31\<bar> < 0.005"
  proof
    assume a: "lm_x ls = 100 \<and> lm_y ls = 180 \<and> lm_x rs = 300 \<and> lm_y rs = 220"
    then have "pl_rotation p = degrees (arctan (40 / 200))"
      unfolding r rotation_of_def Let_def by simp
    with degrees_arctan_fifth
    show "pl_rotation p = arctan (40 / 200) * 180 / pi \<and> \<bar>pl_rotation p - 11.31\<bar> < 0.005"
      by (simp add: degrees_def)
  qed
  from p(2) x general vertical level tilted show ?thesis
    by (intro exI [of _ p]) simp
qed

theorem clothing_rotation_witness:
  "left_shoulder (Some shoulders_level) = Some (Landmark 100 200 0 (Some 0.9)) \<and>
   right_shoulder (Some shoulders_level) = Some (Landmark 300 200 0 (Some 0.9)) \<and>
   (\<exists>p. compute_placement CLOTHING 500 400 (Some shoulders_level) = Inr p \<and>
        pl_rotation p = 0 \<and> pl_x p = 200) \<and>
   left_shoulder (Some shoulders_tilted) = Some (Landmark 100 180 0 (Some 0.9)) \<and>
   right_shoulder (Some shoulders_tilted) = Some (Landmark 300 220 0 (Some 0.9)) \<and>
   (\<exists>p. compute_placement CLOTHING 500 400 (Some shoulders_tilted) = Inr p \<and>
        pl_rotation p = arctan (40 / 200) * 180 / pi \<and> \<bar>pl_rotation p - 11.31\<bar> < 0.005) \<and>
   left_shoulder (Some shoulders_stacked) = Some (Landmark 200 100 0 (Some 0.9)) \<and>
   right_shoulder (Some shoulders_stacked) = Some (Landmark 200 300 0 (Some 0.9)) \<and>
   (\<exists>p. compute_placement CLOTHING 500 400 (Some shoulders_stacked) = Inr p \<and>
        pl_rotation p = 0)"
proof -
  have l: "left_shoulder (Some shoulders_level) = Some (Landmark 100 200 0 (Some 0.9))"
    "right_shoulder (Some shoulders_level) = Some (Landmark 300 200 0 (Some 0.9))"
    by (simp_all add: left_shoulder_def right_shoulder_def
        pose_entry_def shoulders_level_def get_pose_features_def get_sides_def)
  have t: "left_shoulder (Some shoulders_tilted) = Some (Landmark 100 180 0 (Some 0.9))"
    "right_shoulder (Some shoulders_tilted) = Some (Landmark 300 220 0 (Some 0.9))"
    by (simp_all add: left_shoulder_def right_shoulder_def
        pose_entry_def shoulders_tilted_def get_pose_features_def get_sides_def)
  have s: "left_shoulder (Some shoulders_stacked) = Some (Landmark 200 100 0 (Some 0.9))"
    "right_shoulder (Some shoulders_stacked) = Some (Landmark 200 300 0 (Some 0.9))"
    by (simp_all add: left_shoulder_def right_shoulder_def
        pose_entry_def shoulders_stacked_def get_pose_features_def get_sides_def)
  from clothing_rotation [OF l, of 500 400]
  have a: "\<exists>p. compute_placement CLOTHING 500 400 (Some shoulders_level) = Inr p \<and>
        pl_rotation p = 0 \<and> pl_x p = 200"
    by auto
  from clothing_rotation [OF t, of 500 400]
  have b: "\<exists>p. compute_placement CLOTHING 500 400 (Some shoulders_tilted) = Inr p \<and>
        pl_rotation p = arctan (40 / 200) * 180 / pi \<and> \<bar>pl_rotation p - 11.31\<bar> < 0.005"
    by auto
  from clothing_rotation [OF s, of 500 400]
  have c: "\<exists>p. compute_placement CLOTHING 500 400 (Some shoulders_stacked) = Inr p \<and>
        pl_rotation p = 0"
    by auto
  from l t s a b c show ?thesis by simp
qed

subsection \<open>Default placements\<close>

text \<open>
  The default table, and when it is used. A missing landmark is a lookup that gives \<open>None\<close>;
  for an eye, the table is reached when the key \<open>center\<close> is absent from the eye's
  dictionary. The centre of the image is \<open>w // 2\<close> (and \<open>h // 2\<close>), an integer.
\<close>

lemma default_fallback_table:
  "(left_shoulder lms = None \<or> right_shoulder lms = None \<longrightarrow>
      compute_placement CLOTHING h w lms =
        Inr \<lparr>pl_x = real (w div 2), pl_y = real h * 0.5, pl_width = real w * 0.7,
             pl_height = real h * 0.4, pl_rotation = 0\<rparr>) \<and>
   (neck_point lms = None \<and> (left_shoulder lms = None \<or> right_shoulder lms = None) \<longrightarrow>
      compute_placement JEWELRY h w lms =
        Inr \<lparr>pl_x = real (w div 2), pl_y = real h * 0.35, pl_width = real w * 0.3,
             pl_height = real h * 0.1, pl_rotation = 0\<rparr>) \<and>
   (left_eye_center_entry lms = None \<or> right_eye_center_entry lms = None \<longrightarrow>
      compute_placement GLASSES h w lms =
        Inr \<lparr>pl_x = real (w div 2), pl_y = real h * 0.25, pl_width = real w * 0.4,
             pl_height = real h * 0.1, pl_rotation = 0\<rparr>) \<and>
   (face_oval_points lms = [] \<longrightarrow>
      compute_placement HATS h w lms =
        Inr \<lparr>pl_x = real (w div 2), pl_y = real h * 0.15, pl_width = real w * 0.5,
             pl_height = real h * 0.2, pl_rotation = 0\<rparr>) \<and>
   (left_wrist lms = None \<or>
    (\<exists>lw v. left_wrist lms = Some lw \<and> lm_visibility lw = Some v \<and> v \<le> 0.5) \<longrightarrow>
      compute_placement WATCHES h w lms =
        Inr \<lparr>pl_x = real w * 0.7, pl_y = real h * 0.6, pl_width = real w * 0.15,
             pl_height = real w * 0.15, pl_rotation = 0\<rparr>) \<and>
   compute_placement OTHER h w lms =
        Inr \<lparr>pl_x = real (w div 2), pl_y = real (h div 2), pl_width = real w * 0.5,
             pl_height = real h * 0.3, pl_rotation = 0\<rparr>"
proof (intro conjI impI)
  assume "left_shoulder lms = None \<or> right_shoulder lms = None"
  then show "compute_placement CLOTHING h w lms =
        Inr \<lparr>pl_x = real (w div 2), pl_y = real h * 0.5, pl_width = real w * 0.7,
             pl_height = real h * 0.4, pl_rotation = 0\<rparr>"
    by (auto simp: compute_placement_def or_default_def get_default_placement_def
        left_shoulder_def right_shoulder_def get_clothing_placement_def Let_def
        split: option.splits)
next
  assume "neck_point lms = None \<and> (left_shoulder lms = None \<or> right_shoulder lms = None)"
  then show "compute_placement JEWELRY h w lms =
        Inr \<lparr>pl_x = real (w div 2), pl_y = real h * 0.35, pl_width = real w * 0.3,
             pl_height = real h * 0.1, pl_rotation = 0\<rparr>"
    by (auto simp: compute_placement_def or_default_def get_default_placement_def
        left_shoulder_def right_shoulder_def neck_point_def get_jewelry_placement_def Let_def
        split: option.splits)
next
  assume "left_eye_center_entry lms = None \<or> right_eye_center_entry lms = None"
  then show "compute_placement GLASSES h w lms =
        Inr \<lparr>pl_x = real (w div 2), pl_y = real h * 0.25, pl_width = real w * 0.4,
             pl_height = real h * 0.1, pl_rotation = 0\<rparr>"
    by (auto simp: compute_placement_def or_default_def get_default_placement_def
        left_eye_center_entry_def right_eye_center_entry_def get_glasses_placement_def Let_def
        split: option.splits)
next
  assume "face_oval_points lms = []"
  then show "compute_placement HATS h w lms =
        Inr \<lparr>pl_x = real (w div 2), pl_y = real h * 0.15, pl_width = real w * 0.5,
             pl_height = real h * 0.2, pl_rotation = 0\<rparr>"
    by (auto simp: compute_placement_def or_default_def get_default_placement_def
        face_oval_points_def get_hat_placement_def Let_def
        split: option.splits)
next
  assume "left_wrist lms = None \<or>
    (\<exists>lw v. left_wrist lms = Some lw \<and> lm_visibility lw = Some v \<and> v \<le> 0.5)"
  then show "compute_placement WATCHES h w lms =
        Inr \<lparr>pl_x = real w * 0.7, pl_y = real h * 0.6, pl_width = real w * 0.15,
             pl_height = real w * 0.15, pl_rotation = 0\<rparr>"
    by (auto simp: compute_placement_def or_default_def get_default_placement_def
        left_wrist_def get_watch_placement_def Let_def
        split: option.splits)
next
  show "compute_placement OTHER h w lms =
        Inr \<lparr>pl_x = real (w div 2), pl_y = real (h div 2), pl_width = real w * 0.5,
             pl_height = real h * 0.3, pl_rotation = 0\<rparr>"
    by (simp add: compute_placement_def get_default_placement_def)
qed

text \<open>
  Claim C5 fails on the code for glasses. An eye centre that is missing reaches the
  placement rule as the key \<open>center\<close> holding \<open>None\<close>: that is how \<open>_get_eye_landmarks\<close>
  writes it. The test of line 441 accepts the key, line 448 subscripts \<open>None\<close>, and the
  face default, which the claim promises, is not returned.
\<close>

theorem glasses_default_not_returned:
  "left_eye_center_entry (Some eyes_without_center) = Some None \<and>
   get_default_placement 500 400 ''face'' =
     \<lparr>pl_x = 200, pl_y = 125, pl_width = 160, pl_height = 50, pl_rotation = 0\<rparr> \<and>
   compute_placement GLASSES 500 400 (Some eyes_without_center)
     \<noteq> Inr (get_default_placement 500 400 ''face'')"
  by (simp add: left_eye_center_entry_def face_entry_def
      eyes_without_center_def get_face_features_def get_list_def compute_placement_def
      get_glasses_placement_def get_default_placement_def Let_def)

subsection \<open>Missing landmarks and exceptions\<close>

text \<open>
  Claim C6 fails on the code at the same input: the placement computation for glasses
  raises \<open>TypeError\<close>, and \<open>apply_accessory\<close> lets it through. The other rules read their
  landmarks with \<open>.get\<close> and test the value, so a value \<open>None\<close> sends them to the default.
\<close>

theorem glasses_center_none_raises:
  "left_eye_center_entry (Some eyes_without_center) = Some None \<and>
   right_eye_center_entry (Some eyes_without_center) = Some None \<and>
   compute_placement GLASSES 500 400 (Some eyes_without_center) = Inl TypeError \<and>
   fst (apply_accessory demo_lib demo_world (Some 0) (Some (AccArray 1)) ''glasses''
          (Some eyes_without_center)) = Inl TypeError"
  by (simp add: left_eye_center_entry_def right_eye_center_entry_def face_entry_def
      eyes_without_center_def get_face_features_def get_list_def compute_placement_def
      get_glasses_placement_def Let_def apply_accessory_def get_accessory_image_def
      ensure_alpha_def demo_world_def demo_accessory_def demo_base_def category_enum_def
      apply_category_def alloc_def)

subsection \<open>The resolver and its cache\<close>

text \<open>
  Claim C3 fails on the code: \<open>_get_accessory_image\<close> looks a path up in
  \<open>accessory_cache\<close> and never stores into it. Resolving an existing path twice from an
  empty cache decodes the file twice and yields two arrays (addresses 2 and 3); the cache
  is empty afterwards.
\<close>

theorem resolver_decodes_twice:
  "(case get_accessory_image demo_lib demo_world
           (AccDict (Some ''accessories/hats/1.png'') None) of
      (r1, w1) \<Rightarrow>
        (case get_accessory_image demo_lib w1
                (AccDict (Some ''accessories/hats/1.png'') None) of
           (r2, w2) \<Rightarrow>
             r1 = Inr 2 \<and> r2 = Inr 3 \<and> decodes demo_world = 0 \<and> decodes w1 = 1 \<and>
             decodes w2 = 2 \<and> accessory_cache w1 ''accessories/hats/1.png'' = None \<and>
             accessory_cache w2 ''accessories/hats/1.png'' = None))"
  by (simp add: get_accessory_image_def ensure_alpha_def alloc_def demo_lib_def
      demo_world_def demo_accessory_def Let_def)

text \<open>
  Claim C7 fails on the code for data that cannot be decoded: for a file that exists and
  that \<open>cv2.imread\<close> cannot decode, line 128 reads \<open>.shape\<close> of \<open>None\<close> and raises
  \<open>AttributeError\<close>, which \<open>apply_accessory\<close> lets through. A path that does not exist
  does give the placeholder.
\<close>

theorem undecodable_file_raises:
  "os_path_exists demo_lib ''accessories/hats/broken.png'' \<and>
   cv_imread demo_lib ''accessories/hats/broken.png'' = None \<and>
   fst (get_accessory_image demo_lib demo_world
          (AccDict (Some ''accessories/hats/broken.png'') None)) = Inl AttributeError \<and>
   fst (apply_accessory demo_lib demo_world (Some 0)
          (Some (AccDict (Some ''accessories/hats/broken.png'') None)) ''hats'' None)
     = Inl AttributeError"
  by (simp add: get_accessory_image_def apply_accessory_def demo_lib_def demo_world_def Let_def)

lemma missing_path_gives_placeholder:
  assumes "accessory_cache w path = None" and "\<not> os_path_exists lib path"
    and "sh2 (create_placeholder_accessory lib (100, 100)) \<noteq> 3"
  shows "\<exists>w'. get_accessory_image lib w (AccDict (Some path) img) = (Inr (nxt w), w') \<and>
           objs w' (nxt w) = create_placeholder_accessory lib (100, 100) \<and>
           decodes w' = decodes w"
  using assms
  by (simp add: get_accessory_image_def ensure_alpha_def alloc_def Let_def)

end
